theory Spec2Isabelle
  imports Main "HOL-Library.Word"
begin

section \<open>JavaScript strings\<close>

text \<open>
  A JavaScript string is a sequence of UTF-16 code units. The sources contain
  characters outside Latin-1 (an em dash in an error message, arrows and dashes in
  the e-mail template), so strings are lists of 16-bit words; \<open>js\<close> turns an ASCII
  literal into such a string and other code units are written as numbers.
\<close>

type_synonym jsstring = "16 word list"

definition js :: "string \<Rightarrow> jsstring" where
  "js s = map of_char s"

text \<open>
  The code units that \<open>String.prototype.trim\<close> strips and that \<open>\s\<close> matches in a
  regular expression: ECMAScript's WhiteSpace and LineTerminator.
\<close>

definition isWhiteSpace :: "16 word \<Rightarrow> bool" where
  "isWhiteSpace c \<longleftrightarrow>
     c \<in> {0x0009, 0x000A, 0x000B, 0x000C, 0x000D, 0x0020, 0x00A0, 0x1680,
          0x2028, 0x2029, 0x202F, 0x205F, 0x3000, 0xFEFF}
     \<or> (0x2000 \<le> c \<and> c \<le> 0x200A)"

definition trim :: "jsstring \<Rightarrow> jsstring" where
  "trim s = rev (dropWhile isWhiteSpace (rev (dropWhile isWhiteSpace s)))"

text \<open>\<open>String(n)\<close> for a natural number, as a template literal renders an HTTP status.\<close>

fun decimal :: "nat \<Rightarrow> jsstring" where
  "decimal n =
     (if n < 10 then [0x30 + of_nat n]
      else decimal (n div 10) @ [0x30 + of_nat (n mod 10)])"

declare decimal.simps [simp del]

text \<open>
  \<open>s.split(sep)\<close> for a separator of one code unit: the pieces between the
  separators, never an empty array.
\<close>

fun splitString :: "jsstring \<Rightarrow> 16 word \<Rightarrow> jsstring list" where
  "splitString [] sep = [] # []"
| "splitString (c # cs) sep =
     (if c = sep then [] # splitString cs sep
      else (case splitString cs sep of w # ws \<Rightarrow> (c # w) # ws | [] \<Rightarrow> [c] # []))"

text \<open>
  A value that is a string or \<open>undefined\<close> (a missing property, an unset environment
  variable). \<open>truthy\<close> is JavaScript's truthiness of such a value and \<open>orElse v d\<close> is
  \<open>v || d\<close> with a string default.
\<close>

definition truthy :: "jsstring option \<Rightarrow> bool" where
  "truthy v = (case v of None \<Rightarrow> False | Some s \<Rightarrow> s \<noteq> [])"

definition orElse :: "jsstring option \<Rightarrow> jsstring \<Rightarrow> jsstring" where
  "orElse v d = (case v of None \<Rightarrow> d | Some s \<Rightarrow> if s = [] then d else s)"

section \<open>JSON values\<close>

text \<open>
  Request and response bodies are JSON. Numbers are restricted to integers; the code
  only ever asks whether a number is zero. An object is the list of its properties
  in source order.
\<close>

datatype json =
    JNull
  | JBool bool
  | JNum int
  | JStr jsstring
  | JArr "json list"
  | JObj "(jsstring \<times> json) list"

text \<open>
  A property list with the properties whose value is \<open>undefined\<close> left out, as
  \<open>JSON.stringify\<close> leaves them out.
\<close>

definition property :: "string \<Rightarrow> jsstring option \<Rightarrow> (jsstring \<times> json) list" where
  "property k v = (case v of None \<Rightarrow> [] | Some s \<Rightarrow> [(js k, JStr s)])"

section \<open>The e-mail pattern\<close>

text \<open>
  Both form clients and the second listing of the handler test the address with
  \<^verbatim>\<open>/^[^\s@]+@[^\s@]+\.[^\s@]+$/\<close>. The pattern is a sequence of quantified atoms
  between the anchors \<open>^\<close> and \<open>$\<close>; an atom is a literal character or a negated
  character class. Without the \<open>m\<close> flag the anchors are the two ends of the input.
\<close>

datatype class_item = ClassSpace | ClassChar "16 word"

datatype atom = Lit "16 word" | NoneOf "class_item list"

datatype quantified = Once atom | OneOrMore atom

definition emailRegex :: "quantified list" where
  "emailRegex =
     [OneOrMore (NoneOf [ClassSpace, ClassChar 0x40]), Once (Lit 0x40),
      OneOrMore (NoneOf [ClassSpace, ClassChar 0x40]), Once (Lit 0x2E),
      OneOrMore (NoneOf [ClassSpace, ClassChar 0x40])]"

fun in_class :: "class_item \<Rightarrow> 16 word \<Rightarrow> bool" where
  "in_class ClassSpace c = isWhiteSpace c"
| "in_class (ClassChar d) c = (c = d)"

fun atom_matches :: "atom \<Rightarrow> 16 word \<Rightarrow> bool" where
  "atom_matches (Lit d) c = (c = d)"
| "atom_matches (NoneOf items) c = (\<not> list_ex (\<lambda>i. in_class i c) items)"

text \<open>
  A backtracking matcher, as the engine runs the pattern: each function returns the
  inputs that may remain after a match, in the order in which the engine tries them
  (\<open>+\<close> is greedy, the longest repetition first).
\<close>

fun greedy :: "atom \<Rightarrow> jsstring \<Rightarrow> jsstring list" where
  "greedy a [] = []"
| "greedy a (c # s) = (if atom_matches a c then greedy a s @ [s] else [])"

fun match_term :: "quantified \<Rightarrow> jsstring \<Rightarrow> jsstring list" where
  "match_term (Once a) [] = []"
| "match_term (Once a) (c # s) = (if atom_matches a c then [s] else [])"
| "match_term (OneOrMore a) s = greedy a s"

fun match_seq :: "quantified list \<Rightarrow> jsstring \<Rightarrow> jsstring list" where
  "match_seq [] s = [s]"
| "match_seq (t # ts) s = concat (map (match_seq ts) (match_term t s))"

text \<open>\<open>regex.test(s)\<close> for an anchored pattern: some match consumes the whole input.\<close>

definition regex_test :: "quantified list \<Rightarrow> jsstring \<Rightarrow> bool" where
  "regex_test p s \<longleftrightarrow> [] \<in> set (match_seq p s)"

text \<open>
  The shape in the words of the specification: one or more characters that are
  neither whitespace nor \<open>@\<close>, an \<open>@\<close>, one or more such characters, a dot, one or
  more such characters.
\<close>

definition plain_part :: "jsstring \<Rightarrow> bool" where
  "plain_part w \<longleftrightarrow> w \<noteq> [] \<and> list_all (\<lambda>c. \<not> isWhiteSpace c \<and> c \<noteq> 0x40) w"

definition local_at_domain_tld :: "jsstring \<Rightarrow> bool" where
  "local_at_domain_tld e \<longleftrightarrow>
     (\<exists>l d t. e = l @ [0x40] @ d @ [0x2E] @ t \<and> plain_part l \<and> plain_part d \<and> plain_part t)"

section \<open>The submission handler (api/contact.js)\<close>

text \<open>
  The handler is an asynchronous function of the request and the response object; it
  also reads \<open>process.env\<close> and calls \<open>fetch\<close>. In the model the environment is a
  map from variable names to strings, the provider is a function giving the outcome
  of the n-th \<open>fetch\<close> of the invocation, and the handler returns the response it has
  written together with the trace of its outbound traffic.

  The request body is typed as the endpoint documents it: an object whose fields
  \<open>name\<close>, \<open>email\<close>, \<open>subject\<close> and \<open>message\<close> are strings or absent (\<open>None\<close> also
  stands for \<open>null\<close>), or no body at all. Console output is not modelled.
\<close>

record submission =
  body_name :: "jsstring option"
  body_email :: "jsstring option"
  body_subject :: "jsstring option"
  body_message :: "jsstring option"

record request =
  req_method :: jsstring
  req_body :: "submission option"

record response =
  res_status :: nat
  res_headers :: "jsstring \<rightharpoonup> jsstring"
  res_body :: "json option"

type_synonym environment = "jsstring \<rightharpoonup> jsstring"

record http_request =
  url :: jsstring
  http_method :: jsstring
  http_headers :: "(jsstring \<times> jsstring) list"
  http_body :: json

text \<open>
  What a \<open>fetch\<close> settles to: the promise rejects (transport failure, with the
  error's message) or resolves to a response with a status and a body text. Reading
  the body is part of the exchange, so a failure while reading it is a rejection.
\<close>

datatype fetch_outcome = Rejected jsstring | Responded nat jsstring

datatype event = Issued http_request | Settled fetch_outcome

record invocation =
  reply :: response
  trace :: "event list"

text \<open>The requests issued in a trace, in order.\<close>

fun issued :: "event list \<Rightarrow> http_request list" where
  "issued [] = []"
| "issued (Issued r # es) = r # issued es"
| "issued (Settled out # es) = issued es"

definition response_ok :: "nat \<Rightarrow> bool" where
  "response_ok st \<longleftrightarrow> 200 \<le> st \<and> st \<le> 299"

text \<open>
  A call fails when the transport fails or the provider answers with a status
  outside 200-299.
\<close>

definition call_failed :: "fetch_outcome \<Rightarrow> bool" where
  "call_failed out = (case out of Rejected m \<Rightarrow> True | Responded st text \<Rightarrow> \<not> response_ok st)"

text \<open>The object that \<open>sendEmail\<close> throws: an \<open>Error\<close> with an optional \<open>responseText\<close>.\<close>

record js_error =
  err_message :: jsstring
  err_responseText :: "jsstring option"

text \<open>The methods of the response object that the handler uses.\<close>

definition fresh_response :: response where
  "fresh_response = \<lparr>res_status = 200, res_headers = Map.empty, res_body = None\<rparr>"

definition setHeader :: "string \<Rightarrow> string \<Rightarrow> response \<Rightarrow> response" where
  "setHeader k v res = res\<lparr>res_headers := (res_headers res)(js k \<mapsto> js v)\<rparr>"

definition status :: "nat \<Rightarrow> response \<Rightarrow> response" where
  "status st res = res\<lparr>res_status := st\<rparr>"

definition send_json :: "json \<Rightarrow> response \<Rightarrow> response" where
  "send_json v res = res\<lparr>res_body := Some v\<rparr>"

definition send_end :: "response \<Rightarrow> response" where
  "send_end res = res\<lparr>res_body := None\<rparr>"

text \<open>The three \<open>res.setHeader\<close> calls that open both listings of the handler.\<close>

definition cors_headers :: "response \<Rightarrow> response" where
  "cors_headers res =
     setHeader ''Access-Control-Allow-Headers'' ''Content-Type''
       (setHeader ''Access-Control-Allow-Methods'' ''POST, OPTIONS''
         (setHeader ''Access-Control-Allow-Origin'' ''*'' res))"

text \<open>
  \<open>if (!name || !email || !message)\<close>: the three required fields when each of them
  is a non-empty string, and \<open>None\<close> when the handler answers 400.
\<close>

definition required_fields :: "submission \<Rightarrow> (jsstring \<times> jsstring \<times> jsstring) option" where
  "required_fields b =
     (case (body_name b, body_email b, body_message b) of
        (Some name, Some email, Some message) \<Rightarrow>
          if name = [] \<or> email = [] \<or> message = [] then None
          else Some (name, email, message)
      | _ \<Rightarrow> None)"

text \<open>\<open>req.body || {}\<close>\<close>

definition body_or_empty :: "submission option \<Rightarrow> submission" where
  "body_or_empty b =
     (case b of
        None \<Rightarrow> \<lparr>body_name = None, body_email = None, body_subject = None, body_message = None\<rparr>
      | Some s \<Rightarrow> s)"

text \<open>
  \<open>fetch('https://api.emailjs.com/api/v1.0/email/send', {method, headers, body})\<close>
  with the payload that \<open>JSON.stringify\<close> serialises.
\<close>

definition email_api_request :: "json \<Rightarrow> http_request" where
  "email_api_request payload =
     \<lparr>url = js ''https://api.emailjs.com/api/v1.0/email/send'',
      http_method = js ''POST'',
      http_headers = [(js ''Content-Type'', js ''application/json'')],
      http_body = payload\<rparr>"

text \<open>
  \<open>sendEmail\<close> of the first listing (lines 76-90): the body text is read first, a
  status outside 200-299 throws \<^verbatim>\<open>EmailJS ${status}: ${text}\<close> carrying the text, and
  a success returns the status and the text.
\<close>

definition sendEmail ::
  "(nat \<Rightarrow> fetch_outcome) \<Rightarrow> event list \<Rightarrow> json \<Rightarrow> (js_error + nat \<times> jsstring) \<times> event list" where
  "sendEmail net tr payload =
     (let out = net (length (issued tr));
          tr' = tr @ [Issued (email_api_request payload), Settled out]
      in case out of
           Rejected m \<Rightarrow> (Inl \<lparr>err_message = m, err_responseText = None\<rparr>, tr')
         | Responded st text \<Rightarrow>
             if \<not> response_ok st
             then (Inl \<lparr>err_message = js ''EmailJS '' @ decimal st @ js '': '' @ text,
                        err_responseText = Some text\<rparr>, tr')
             else (Inr (st, text), tr'))"

text \<open>
  \<open>sendEmail\<close> of the second listing (lines 302-313): the body text is read only
  after a status outside 200-299, and the error carries no \<open>responseText\<close>.
\<close>

definition sendEmail2 ::
  "(nat \<Rightarrow> fetch_outcome) \<Rightarrow> event list \<Rightarrow> json \<Rightarrow> (js_error + nat \<times> jsstring) \<times> event list" where
  "sendEmail2 net tr payload =
     (let out = net (length (issued tr));
          tr' = tr @ [Issued (email_api_request payload), Settled out]
      in case out of
           Rejected m \<Rightarrow> (Inl \<lparr>err_message = m, err_responseText = None\<rparr>, tr')
         | Responded st text \<Rightarrow>
             if \<not> response_ok st
             then (Inl \<lparr>err_message = js ''EmailJS responded with '' @ decimal st @ js '': '' @ text,
                        err_responseText = None\<rparr>, tr')
             else (Inr (st, text), tr'))"

subsection \<open>The auto-reply document\<close>

text \<open>
  \<open>buildAutoReplyHtml\<close> returns one template literal. Its fixed text is cut at the
  interpolation points into the constants below, first for the listing at lines
  92-183, then for the listing at lines 318-445.
\<close>

definition html_header :: \<open>jsstring\<close> where
  \<open>html_header = concat
    [js ''<!DOCTYPE html>\<newline>'',
     js ''<html lang="en">\<newline>'',
     js ''<head>\<newline>'',
     js ''  <meta charset="UTF-8" />\<newline>'',
     js ''  <meta name="viewport" content="width=device-width, initial-scale=1.0" />\<newline>'',
     js ''</head>\<newline>'',
     js ''<body style="margin:0;padding:0;font-family:'Segoe UI',Tahoma,Geneva,Verdana,sans-serif;background:#f0f4f8;">\<newline>'',
     js ''  <table width="100%" cellpadding="0" cellspacing="0" style="background:#f0f4f8;padding:40px 16px;">\<newline>'',
     js ''    <tr>\<newline>'',
     js ''      <td align="center">\<newline>'',
     js ''        <table width="600" cellpadding="0" cellspacing="0" style="max-width:600px;width:100%;background:#ffffff;border-radius:20px;overflow:hidden;box-shadow:0 8px 40px rgba(0,0,0,0.12);">\<newline>'',
     js ''          <tr>\<newline>'',
     js ''            <td style="background:linear-gradient(135deg,#001f3f 0%,#003d7a 60%,#0057a8 100%);padding:40px 32px;text-align:center;">\<newline>'',
     js ''              <div style="display:inline-block;width:64px;height:64px;background:rgba(255,255,255,0.15);border-radius:50%;line-height:64px;font-size:26px;font-weight:800;color:#ffffff;margin-bottom:18px;border:2px solid rgba(255,255,255,0.3);">BM</div>\<newline>'',
     js ''              <h1 style="margin:0 0 6px;color:#ffffff;font-size:26px;font-weight:700;">Message Received!</h1>\<newline>'',
     js ''              <p style="margin:0;color:rgba(255,255,255,0.8);font-size:15px;">I'll be in touch with you soon, '']\<close>

definition html_greeting :: \<open>jsstring\<close> where
  \<open>html_greeting = concat
    [js ''.</p>\<newline>'',
     js ''            </td>\<newline>'',
     js ''          </tr>\<newline>'',
     js ''          <tr>\<newline>'',
     js ''            <td style="padding:36px 32px;">\<newline>'',
     js ''              <p style="margin:0 0 20px;color:#1a1a2e;font-size:16px;line-height:1.6;">Hi <strong>'']\<close>

definition html_thanks :: \<open>jsstring\<close> where
  \<open>html_thanks = concat
    [js ''</strong>,</p>\<newline>'',
     js ''              <p style="margin:0 0 20px;color:#4a5568;font-size:15px;line-height:1.7;">\<newline>'',
     js ''                Thank you for reaching out regarding <strong style="color:#003d7a;">"'']\<close>

definition html_remainder :: \<open>jsstring\<close> where
  \<open>html_remainder = concat
    [js ''"</strong>.\<newline>'',
     js ''                I've received your message and will get back to you within <strong>24-48 hours</strong>.\<newline>'',
     js ''              </p>\<newline>'',
     js ''              <div style="border-top:2px solid #e8edf5;margin:28px 0;"></div>\<newline>'',
     js ''              <div style="background:#f7f9fc;border-left:4px solid #003d7a;border-radius:0 10px 10px 0;padding:20px 22px;margin-bottom:28px;">\<newline>'',
     js ''                <p style="margin:0 0 8px;color:#003d7a;font-size:13px;font-weight:700;text-transform:uppercase;letter-spacing:0.8px;">What happens next</p>\<newline>'',
     js ''                <p style="margin:0;color:#4a5568;font-size:14px;line-height:1.7;">\<newline>'',
     js ''                  I review every message personally. Expect a reply shortly. If it's urgent, feel free to reach me directly on WhatsApp.\<newline>'',
     js ''                </p>\<newline>'',
     js ''              </div>\<newline>'',
     js ''              <div style="text-align:center;margin-bottom:32px;">\<newline>'',
     js ''                <a href="https://betsamukuba.vercel.app/" style="display:inline-block;background:linear-gradient(135deg,#001f3f,#003d7a);color:#ffffff;text-decoration:none;padding:14px 36px;border-radius:50px;font-size:15px;font-weight:600;">\<newline>'',
     js ''                  View My Portfolio '' @ [0x2192] @ js ''\<newline>'',
     js ''                </a>\<newline>'',
     js ''              </div>\<newline>'',
     js ''              <div style="border-top:2px solid #e8edf5;margin:28px 0;"></div>\<newline>'',
     js ''              <p style="margin:0 0 18px;text-align:center;color:#4a5568;font-size:14px;font-weight:600;text-transform:uppercase;letter-spacing:0.8px;">Connect with me</p>\<newline>'',
     js ''              <table width="100%" cellpadding="0" cellspacing="0">\<newline>'',
     js ''                <tr>\<newline>'',
     js ''                  <td align="center">\<newline>'',
     js ''                    <table cellpadding="0" cellspacing="0">\<newline>'',
     js ''                      <tr>\<newline>'',
     js ''                        <td style="padding:0 10px;">\<newline>'',
     js ''                          <a href="https://linkedin.com/in/betsaleel-mukuba" target="_blank" style="text-decoration:none;">\<newline>'',
     js ''                            <div style="width:52px;height:52px;background:#0077b5;border-radius:50%;text-align:center;line-height:52px;">\<newline>'',
     js ''                              <img src="https://cdn-icons-png.flaticon.com/512/174/174857.png" width="26" height="26" alt="LinkedIn" style="vertical-align:middle;" />\<newline>'',
     js ''                            </div>\<newline>'',
     js ''                            <p style="margin:6px 0 0;text-align:center;color:#0077b5;font-size:11px;font-weight:600;">LinkedIn</p>\<newline>'',
     js ''                          </a>\<newline>'',
     js ''                        </td>\<newline>'',
     js ''                        <td style="padding:0 10px;">\<newline>'',
     js ''                          <a href="https://wa.me/260969508654" target="_blank" style="text-decoration:none;">\<newline>'',
     js ''                            <div style="width:52px;height:52px;background:#25d366;border-radius:50%;text-align:center;line-height:52px;">\<newline>'',
     js ''                              <img src="https://cdn-icons-png.flaticon.com/512/220/220236.png" width="26" height="26" alt="WhatsApp" style="vertical-align:middle;" />\<newline>'',
     js ''                            </div>\<newline>'',
     js ''                            <p style="margin:6px 0 0;text-align:center;color:#25d366;font-size:11px;font-weight:600;">WhatsApp</p>\<newline>'',
     js ''                          </a>\<newline>'',
     js ''                        </td>\<newline>'',
     js ''                        <td style="padding:0 10px;">\<newline>'',
     js ''                          <a href="https://facebook.com/betsa.mukuba" target="_blank" style="text-decoration:none;">\<newline>'',
     js ''                            <div style="width:52px;height:52px;background:#1877f2;border-radius:50%;text-align:center;line-height:52px;">\<newline>'',
     js ''                              <img src="https://cdn-icons-png.flaticon.com/512/733/733547.png" width="26" height="26" alt="Facebook" style="vertical-align:middle;" />\<newline>'',
     js ''                            </div>\<newline>'',
     js ''                            <p style="margin:6px 0 0;text-align:center;color:#1877f2;font-size:11px;font-weight:600;">Facebook</p>\<newline>'',
     js ''                          </a>\<newline>'',
     js ''                        </td>\<newline>'',
     js ''                      </tr>\<newline>'',
     js ''                    </table>\<newline>'',
     js ''                  </td>\<newline>'',
     js ''                </tr>\<newline>'',
     js ''              </table>\<newline>'',
     js ''            </td>\<newline>'',
     js ''          </tr>\<newline>'',
     js ''          <tr>\<newline>'',
     js ''            <td style="background:#f7f9fc;padding:24px 32px;text-align:center;border-top:2px solid #e8edf5;">\<newline>'',
     js ''              <p style="margin:0 0 4px;color:#718096;font-size:13px;">Best regards,</p>\<newline>'',
     js ''              <p style="margin:0 0 2px;color:#001f3f;font-size:18px;font-weight:700;">Betsaleel Mukuba</p>\<newline>'',
     js ''              <p style="margin:0 0 14px;color:#718096;font-size:12px;">Frontend Developer & Web Specialist '' @ [0x00B7] @ js '' Lusaka, Zambia</p>\<newline>'',
     js ''              <p style="margin:0;color:#a0aec0;font-size:11px;">'' @ [0x00A9] @ js '' 2026 Betsaleel Mukuba '' @ [0x00B7] @ js '' This is an automated reply.</p>\<newline>'',
     js ''            </td>\<newline>'',
     js ''          </tr>\<newline>'',
     js ''        </table>\<newline>'',
     js ''      </td>\<newline>'',
     js ''    </tr>\<newline>'',
     js ''  </table>\<newline>'',
     js ''</body>\<newline>'',
     js ''</html>'']\<close>

definition html2_header :: \<open>jsstring\<close> where
  \<open>html2_header = concat
    [js ''<!DOCTYPE html>\<newline>'',
     js ''<html lang="en">\<newline>'',
     js ''<head>\<newline>'',
     js ''  <meta charset="UTF-8" />\<newline>'',
     js ''  <meta name="viewport" content="width=device-width, initial-scale=1.0" />\<newline>'',
     js ''  <title>Thank You</title>\<newline>'',
     js ''</head>\<newline>'',
     js ''<body style="margin:0;padding:0;font-family:'Segoe UI',Tahoma,Geneva,Verdana,sans-serif;background:#f0f4f8;">\<newline>'',
     js ''\<newline>'',
     js ''  <!-- Wrapper -->\<newline>'',
     js ''  <table width="100%" cellpadding="0" cellspacing="0" style="background:#f0f4f8;padding:40px 16px;">\<newline>'',
     js ''    <tr>\<newline>'',
     js ''      <td align="center">\<newline>'',
     js ''        <table width="600" cellpadding="0" cellspacing="0" style="max-width:600px;width:100%;background:#ffffff;border-radius:20px;overflow:hidden;box-shadow:0 8px 40px rgba(0,0,0,0.12);">\<newline>'',
     js ''\<newline>'',
     js ''          <!-- '' @ [0x2500] @ [0x2500] @ js '' HEADER '' @ [0x2500] @ [0x2500] @ js '' -->\<newline>'',
     js ''          <tr>\<newline>'',
     js ''            <td style="background:linear-gradient(135deg,#001f3f 0%,#003d7a 60%,#0057a8 100%);padding:40px 32px;text-align:center;">\<newline>'',
     js ''              <!-- Logo circle -->\<newline>'',
     js ''              <div style="display:inline-block;width:64px;height:64px;background:rgba(255,255,255,0.15);border-radius:50%;line-height:64px;font-size:26px;font-weight:800;color:#ffffff;margin-bottom:18px;border:2px solid rgba(255,255,255,0.3);">BM</div>\<newline>'',
     js ''              <h1 style="margin:0 0 6px;color:#ffffff;font-size:26px;font-weight:700;letter-spacing:-0.5px;">Message Received!</h1>\<newline>'',
     js ''              <p style="margin:0;color:rgba(255,255,255,0.8);font-size:15px;">I'll be in touch with you soon, '']\<close>

definition html2_greeting :: \<open>jsstring\<close> where
  \<open>html2_greeting = concat
    [js ''.</p>\<newline>'',
     js ''            </td>\<newline>'',
     js ''          </tr>\<newline>'',
     js ''\<newline>'',
     js ''          <!-- '' @ [0x2500] @ [0x2500] @ js '' BODY '' @ [0x2500] @ [0x2500] @ js '' -->\<newline>'',
     js ''          <tr>\<newline>'',
     js ''            <td style="padding:36px 32px;">\<newline>'',
     js ''\<newline>'',
     js ''              <!-- Greeting -->\<newline>'',
     js ''              <p style="margin:0 0 20px;color:#1a1a2e;font-size:16px;line-height:1.6;">Hi <strong>'']\<close>

definition html2_thanks :: \<open>jsstring\<close> where
  \<open>html2_thanks = concat
    [js ''</strong>,</p>\<newline>'',
     js ''              <p style="margin:0 0 20px;color:#4a5568;font-size:15px;line-height:1.7;">\<newline>'',
     js ''                Thank you for reaching out regarding <strong style="color:#003d7a;">"'']\<close>

definition html2_next_steps :: \<open>jsstring\<close> where
  \<open>html2_next_steps = concat
    [js ''"</strong>.\<newline>'',
     js ''                I've received your message and will get back to you within <strong>24'' @ [0x2013] @ js ''48 hours</strong>.\<newline>'',
     js ''              </p>\<newline>'',
     js ''\<newline>'',
     js ''              <!-- Divider -->\<newline>'',
     js ''              <div style="border-top:2px solid #e8edf5;margin:28px 0;"></div>\<newline>'',
     js ''\<newline>'',
     js ''              <!-- What happens next box -->\<newline>'',
     js ''              <div style="background:#f7f9fc;border-left:4px solid #003d7a;border-radius:0 10px 10px 0;padding:20px 22px;margin-bottom:28px;">\<newline>'',
     js ''                <p style="margin:0 0 8px;color:#003d7a;font-size:13px;font-weight:700;text-transform:uppercase;letter-spacing:0.8px;">What happens next</p>\<newline>'',
     js ''                <p style="margin:0;color:#4a5568;font-size:14px;line-height:1.7;">\<newline>'',
     js ''                  I review every message personally. Expect a thoughtful reply to <strong>'']\<close>

definition html2_remainder :: \<open>jsstring\<close> where
  \<open>html2_remainder = concat
    [js ''</strong>'s inbox shortly. If it's urgent, feel free to reach me directly on WhatsApp.\<newline>'',
     js ''                </p>\<newline>'',
     js ''              </div>\<newline>'',
     js ''\<newline>'',
     js ''              <!-- CTA button -->\<newline>'',
     js ''              <div style="text-align:center;margin-bottom:32px;">\<newline>'',
     js ''                <a href="https://betsamukuba.vercel.app/"\<newline>'',
     js ''                   style="display:inline-block;background:linear-gradient(135deg,#001f3f,#003d7a);color:#ffffff;text-decoration:none;padding:14px 36px;border-radius:50px;font-size:15px;font-weight:600;letter-spacing:0.3px;">\<newline>'',
     js ''                  View My Portfolio '' @ [0x2192] @ js ''\<newline>'',
     js ''                </a>\<newline>'',
     js ''              </div>\<newline>'',
     js ''\<newline>'',
     js ''              <!-- Divider -->\<newline>'',
     js ''              <div style="border-top:2px solid #e8edf5;margin:28px 0;"></div>\<newline>'',
     js ''\<newline>'',
     js ''              <!-- Connect section -->\<newline>'',
     js ''              <p style="margin:0 0 18px;text-align:center;color:#4a5568;font-size:14px;font-weight:600;text-transform:uppercase;letter-spacing:0.8px;">Connect with me</p>\<newline>'',
     js ''\<newline>'',
     js ''              <!-- Social icons row -->\<newline>'',
     js ''              <table width="100%" cellpadding="0" cellspacing="0">\<newline>'',
     js ''                <tr>\<newline>'',
     js ''                  <td align="center">\<newline>'',
     js ''                    <table cellpadding="0" cellspacing="0">\<newline>'',
     js ''                      <tr>\<newline>'',
     js ''\<newline>'',
     js ''                        <!-- LinkedIn -->\<newline>'',
     js ''                        <td style="padding:0 10px;">\<newline>'',
     js ''                          <a href="https://linkedin.com/in/betsaleel-mukuba" target="_blank" style="display:inline-block;text-decoration:none;">\<newline>'',
     js ''                            <div style="width:52px;height:52px;background:#0077b5;border-radius:50%;display:flex;align-items:center;justify-content:center;margin:0 auto 6px;">\<newline>'',
     js ''                              <img src="https://cdn-icons-png.flaticon.com/512/174/174857.png" width="26" height="26" alt="LinkedIn" style="display:block;margin:13px auto;" />\<newline>'',
     js ''                            </div>\<newline>'',
     js ''                            <p style="margin:0;text-align:center;color:#0077b5;font-size:11px;font-weight:600;">LinkedIn</p>\<newline>'',
     js ''                          </a>\<newline>'',
     js ''                        </td>\<newline>'',
     js ''\<newline>'',
     js ''                        <!-- WhatsApp -->\<newline>'',
     js ''                        <td style="padding:0 10px;">\<newline>'',
     js ''                          <a href="https://wa.me/260969508654" target="_blank" style="display:inline-block;text-decoration:none;">\<newline>'',
     js ''                            <div style="width:52px;height:52px;background:#25d366;border-radius:50%;display:flex;align-items:center;justify-content:center;margin:0 auto 6px;">\<newline>'',
     js ''                              <img src="https://cdn-icons-png.flaticon.com/512/220/220236.png" width="26" height="26" alt="WhatsApp" style="display:block;margin:13px auto;" />\<newline>'',
     js ''                            </div>\<newline>'',
     js ''                            <p style="margin:0;text-align:center;color:#25d366;font-size:11px;font-weight:600;">WhatsApp</p>\<newline>'',
     js ''                          </a>\<newline>'',
     js ''                        </td>\<newline>'',
     js ''\<newline>'',
     js ''                        <!-- Facebook -->\<newline>'',
     js ''                        <td style="padding:0 10px;">\<newline>'',
     js ''                          <a href="https://facebook.com/betsa.mukuba" target="_blank" style="display:inline-block;text-decoration:none;">\<newline>'',
     js ''                            <div style="width:52px;height:52px;background:#1877f2;border-radius:50%;display:flex;align-items:center;justify-content:center;margin:0 auto 6px;">\<newline>'',
     js ''                              <img src="https://cdn-icons-png.flaticon.com/512/733/733547.png" width="26" height="26" alt="Facebook" style="display:block;margin:13px auto;" />\<newline>'',
     js ''                            </div>\<newline>'',
     js ''                            <p style="margin:0;text-align:center;color:#1877f2;font-size:11px;font-weight:600;">Facebook</p>\<newline>'',
     js ''                          </a>\<newline>'',
     js ''                        </td>\<newline>'',
     js ''\<newline>'',
     js ''                      </tr>\<newline>'',
     js ''                    </table>\<newline>'',
     js ''                  </td>\<newline>'',
     js ''                </tr>\<newline>'',
     js ''              </table>\<newline>'',
     js ''\<newline>'',
     js ''            </td>\<newline>'',
     js ''          </tr>\<newline>'',
     js ''\<newline>'',
     js ''          <!-- '' @ [0x2500] @ [0x2500] @ js '' FOOTER '' @ [0x2500] @ [0x2500] @ js '' -->\<newline>'',
     js ''          <tr>\<newline>'',
     js ''            <td style="background:#f7f9fc;padding:24px 32px;text-align:center;border-top:2px solid #e8edf5;">\<newline>'',
     js ''              <p style="margin:0 0 4px;color:#718096;font-size:13px;">Best regards,</p>\<newline>'',
     js ''              <p style="margin:0 0 2px;color:#001f3f;font-size:18px;font-weight:700;">Betsaleel Mukuba</p>\<newline>'',
     js ''              <p style="margin:0 0 14px;color:#718096;font-size:12px;">Frontend Developer &amp; Web Specialist '' @ [0x00B7] @ js '' Lusaka, Zambia</p>\<newline>'',
     js ''              <p style="margin:0;color:#a0aec0;font-size:11px;">\<newline>'',
     js ''                '' @ [0x00A9] @ js '' 2026 Betsaleel Mukuba '' @ [0x00B7] @ js '' This is an automated reply '' @ [0x2014] @ js '' please do not reply directly to this email.\<newline>'',
     js ''              </p>\<newline>'',
     js ''            </td>\<newline>'',
     js ''          </tr>\<newline>'',
     js ''\<newline>'',
     js ''        </table>\<newline>'',
     js ''      </td>\<newline>'',
     js ''    </tr>\<newline>'',
     js ''  </table>\<newline>'',
     js ''\<newline>'',
     js ''</body>\<newline>'',
     js ''</html>'']\<close>

text \<open>
  First listing: \<^verbatim>\<open>${name}\<close> twice, then \<^verbatim>\<open>${displaySubject}\<close>, where
  \<open>displaySubject\<close> is \<^verbatim>\<open>subject || 'your message'\<close>.
\<close>

definition buildAutoReplyHtml :: "jsstring \<Rightarrow> jsstring option \<Rightarrow> jsstring" where
  "buildAutoReplyHtml name subject =
     (let displaySubject = orElse subject (js ''your message'')
      in html_header @ name @ html_greeting @ name @ html_thanks @ displaySubject
         @ html_remainder)"

text \<open>
  Second listing: the same three points and a fourth, \<^verbatim>\<open>${name.split(' ')[0]}\<close>.
  Index 0 of an empty array would be \<open>undefined\<close>.
\<close>

definition buildAutoReplyHtml2 :: "jsstring \<Rightarrow> jsstring option \<Rightarrow> jsstring" where
  "buildAutoReplyHtml2 name subject =
     (let displaySubject = orElse subject (js ''your message'')
      in html2_header @ name @ html2_greeting @ name @ html2_thanks @ displaySubject
         @ html2_next_steps
         @ (case splitString name 0x20 of w # ws \<Rightarrow> w | [] \<Rightarrow> js ''undefined'')
         @ html2_remainder)"

subsection \<open>The two listings of the handler\<close>

text \<open>The object passed to \<open>sendEmail\<close>; an unset variable leaves its property out.\<close>

definition email_payload ::
  "environment \<Rightarrow> string \<Rightarrow> (jsstring \<times> json) list \<Rightarrow> json" where
  "email_payload env template_variable template_params =
     JObj (property ''service_id'' (env (js ''EMAILJS_SERVICE_ID''))
         @ property ''template_id'' (env (js template_variable))
         @ property ''user_id'' (env (js ''EMAILJS_PUBLIC_KEY''))
         @ property ''accessToken'' (env (js ''EMAILJS_PRIVATE_KEY''))
         @ [(js ''template_params'', JObj template_params)])"

definition notification_params ::
  "jsstring \<Rightarrow> jsstring \<Rightarrow> jsstring option \<Rightarrow> jsstring \<Rightarrow> (jsstring \<times> json) list" where
  "notification_params name email subject message =
     [(js ''from_name'', JStr name),
      (js ''from_email'', JStr email),
      (js ''reply_to'', JStr email),
      (js ''subject'', JStr (orElse subject (js ''(No subject)''))),
      (js ''message'', JStr message)]"

definition autoreply_params ::
  "jsstring \<Rightarrow> jsstring \<Rightarrow> jsstring option \<Rightarrow> jsstring \<Rightarrow> (jsstring \<times> json) list" where
  "autoreply_params name email subject html =
     [(js ''from_name'', JStr name),
      (js ''reply_to'', JStr email),
      (js ''subject'', JStr (orElse subject (js ''your message''))),
      (js ''auto_reply_html'', JStr html)]"

definition error_body :: "jsstring \<Rightarrow> json" where
  "error_body m = JObj [(js ''error'', JStr m)]"

definition misconfiguration_message :: jsstring where
  "misconfiguration_message =
     js ''Server misconfiguration '' @ [0x2014] @ js '' missing environment variables.''"

text \<open>
  First listing (lines 1-74). The guard on the configuration tests the service
  identifier and the two keys; the \<open>catch\<close> block adds the error's message as
  \<open>details\<close>.
\<close>

definition handler :: "(nat \<Rightarrow> fetch_outcome) \<Rightarrow> environment \<Rightarrow> request \<Rightarrow> invocation" where
  "handler net env req =
     (let res = cors_headers fresh_response in
      if req_method req = js ''OPTIONS''
      then \<lparr>reply = send_end (status 200 res), trace = []\<rparr>
      else if req_method req \<noteq> js ''POST''
      then \<lparr>reply = send_json (error_body (js ''Method Not Allowed'')) (status 405 res),
            trace = []\<rparr>
      else
        let b = body_or_empty (req_body req); subject = body_subject b in
        (case required_fields b of
          None \<Rightarrow>
            \<lparr>reply = send_json (error_body (js ''Name, email and message are required.''))
                      (status 400 res),
             trace = []\<rparr>
        | Some (name, email, message) \<Rightarrow>
            if \<not> truthy (env (js ''EMAILJS_SERVICE_ID''))
               \<or> \<not> truthy (env (js ''EMAILJS_PUBLIC_KEY''))
               \<or> \<not> truthy (env (js ''EMAILJS_PRIVATE_KEY''))
            then \<lparr>reply = send_json (error_body misconfiguration_message) (status 500 res),
                  trace = []\<rparr>
            else
              let failed = (\<lambda>err.
                    send_json (JObj [(js ''error'', JStr (js ''Failed to send email. Please try again.'')),
                                     (js ''details'', JStr (err_message err))])
                      (status 500 res))
              in
              (case sendEmail net []
                     (email_payload env ''EMAILJS_NOTIFICATION_TEMPLATE_ID''
                        (notification_params name email subject message)) of
                (Inl err, tr1) \<Rightarrow> \<lparr>reply = failed err, trace = tr1\<rparr>
              | (Inr notifResponse, tr1) \<Rightarrow>
                  (case sendEmail net tr1
                          (email_payload env ''EMAILJS_AUTOREPLY_TEMPLATE_ID''
                             (autoreply_params name email subject
                                (buildAutoReplyHtml name subject))) of
                     (Inl err, tr2) \<Rightarrow> \<lparr>reply = failed err, trace = tr2\<rparr>
                   | (Inr replyResponse, tr2) \<Rightarrow>
                       \<lparr>reply = send_json (JObj [(js ''success'', JBool True)]) (status 200 res),
                        trace = tr2\<rparr>))))"

text \<open>
  Second listing (lines 235-299). It tests the address against the pattern, has no
  guard on the configuration, and its \<open>catch\<close> block returns the fixed message only.
\<close>

definition handler2 :: "(nat \<Rightarrow> fetch_outcome) \<Rightarrow> environment \<Rightarrow> request \<Rightarrow> invocation" where
  "handler2 net env req =
     (let res = cors_headers fresh_response in
      if req_method req = js ''OPTIONS''
      then \<lparr>reply = send_end (status 200 res), trace = []\<rparr>
      else if req_method req \<noteq> js ''POST''
      then \<lparr>reply = send_json (error_body (js ''Method Not Allowed'')) (status 405 res),
            trace = []\<rparr>
      else
        let b = body_or_empty (req_body req); subject = body_subject b in
        (case required_fields b of
          None \<Rightarrow>
            \<lparr>reply = send_json (error_body (js ''Name, email and message are required.''))
                      (status 400 res),
             trace = []\<rparr>
        | Some (name, email, message) \<Rightarrow>
            if \<not> regex_test emailRegex email
            then \<lparr>reply = send_json (error_body (js ''Invalid email address.'')) (status 400 res),
                  trace = []\<rparr>
            else
              let failed = (\<lambda>err.
                    send_json (error_body (js ''Failed to send email. Please try again.''))
                      (status 500 res))
              in
              (case sendEmail2 net []
                     (email_payload env ''EMAILJS_NOTIFICATION_TEMPLATE_ID''
                        (notification_params name email subject message)) of
                (Inl err, tr1) \<Rightarrow> \<lparr>reply = failed err, trace = tr1\<rparr>
              | (Inr notifResponse, tr1) \<Rightarrow>
                  (case sendEmail2 net tr1
                          (email_payload env ''EMAILJS_AUTOREPLY_TEMPLATE_ID''
                             (autoreply_params name email subject
                                (buildAutoReplyHtml2 name subject))) of
                     (Inl err, tr2) \<Rightarrow> \<lparr>reply = failed err, trace = tr2\<rparr>
                   | (Inr replyResponse, tr2) \<Rightarrow>
                       \<lparr>reply = send_json (JObj [(js ''success'', JBool True)]) (status 200 res),
                        trace = tr2\<rparr>))))"

text \<open>
  What the listings check of a request before they call the provider: the three
  required fields are non-empty strings, as received; and, in the second listing,
  the address has the shape of the pattern.
\<close>

definition has_required_fields :: "request \<Rightarrow> bool" where
  "has_required_fields req =
     (case req_body req of
        None \<Rightarrow> False
      | Some b \<Rightarrow> truthy (body_name b) \<and> truthy (body_email b) \<and> truthy (body_message b))"

definition has_address_shape :: "request \<Rightarrow> bool" where
  "has_address_shape req =
     (case req_body req of
        None \<Rightarrow> False
      | Some b \<Rightarrow> (case body_email b of None \<Rightarrow> False | Some e \<Rightarrow> local_at_domain_tld e))"

section \<open>The form clients\<close>

text \<open>
  The page as the submit handlers see it: the four input fields with their current
  and their default values, the submit control, the visible toast, the network calls
  made so far and the timers set so far. The form, its four inputs and its submit
  control exist, as the handlers take for granted. A \<open>fetch\<close> or an SDK call that
  never settles is not modelled.
\<close>

record button =
  innerHTML :: jsstring
  disabled :: bool
  background :: jsstring

record form_values =
  name_value :: jsstring
  email_value :: jsstring
  subject_value :: jsstring
  message_value :: jsstring

text \<open>
  The two callbacks handed to \<open>setTimeout\<close>: the removal of a toast, and the reset
  of the form after a success, which keeps the control's original label.
\<close>

datatype timer_action = RemoveToast | ResetForm jsstring

text \<open>
  A network call of a client: a \<open>fetch\<close>, or \<open>emailjs.send(service, template, params)\<close>
  of the EmailJS browser SDK, which is not part of the repository.
\<close>

datatype net_call =
    Fetch http_request
  | EmailjsSend jsstring jsstring "(jsstring \<times> json) list"

record browser =
  form :: form_values
  form_defaults :: form_values
  submitBtn :: button
  toast :: "(json \<times> jsstring) option"
  calls :: "net_call list"
  timers :: "(nat \<times> timer_action) list"

text \<open>
  \<open>showToast(message, type)\<close> replaces the visible toast and sets a timer of five
  seconds that removes it. The markup and the styling of the toast are left out.
\<close>

definition showToast :: "json \<Rightarrow> string \<Rightarrow> browser \<Rightarrow> browser" where
  "showToast message type b =
     b\<lparr>toast := Some (message, js type), timers := timers b @ [(5000, RemoveToast)]\<rparr>"

text \<open>\<open>submitBtn.innerHTML = originalHTML; submitBtn.disabled = false;\<close>\<close>

definition restore :: "jsstring \<Rightarrow> browser \<Rightarrow> browser" where
  "restore originalHTML b =
     b\<lparr>submitBtn := (submitBtn b)\<lparr>innerHTML := originalHTML, disabled := False\<rparr>\<rparr>"

text \<open>
  The callback that runs three seconds after a success: \<open>contactForm.reset()\<close> puts
  the default values back, and the control gets its label, its background and its
  enabled state back.
\<close>

definition resetCallback :: "jsstring \<Rightarrow> browser \<Rightarrow> browser" where
  "resetCallback originalHTML b =
     b\<lparr>form := form_defaults b,
       submitBtn := (submitBtn b)\<lparr>innerHTML := originalHTML, background := [],
                                   disabled := False\<rparr>\<rparr>"

text \<open>The control while the submission is in flight, and after a success.\<close>

definition sending :: "browser \<Rightarrow> browser" where
  \<open>sending b =
     b\<lparr>submitBtn := (submitBtn b)\<lparr>innerHTML := js ''<i class="fas fa-spinner fa-spin"></i> Sending...'',
                                   disabled := True\<rparr>\<rparr>\<close>

definition sent :: "jsstring \<Rightarrow> browser \<Rightarrow> browser" where
  \<open>sent originalHTML b =
     (let b1 = b\<lparr>submitBtn := (submitBtn b)\<lparr>innerHTML := js ''<i class="fas fa-check"></i> Message Sent!'',
                                            background := js ''linear-gradient(135deg, #27ae60, #2ecc71)''\<rparr>\<rparr>;
          b2 = showToast (JStr (js ''Message sent! Check your inbox for a confirmation email.''))
                 ''success'' b1
      in b2\<lparr>timers := timers b2 @ [(3000, ResetForm originalHTML)]\<rparr>)\<close>

subsection \<open>The client that posts to the handler\<close>

text \<open>
  What the \<open>fetch\<close> of the client settles to: a rejection, or a response with a
  status and a body that \<open>response.json()\<close> parses (\<open>None\<close> when it is not JSON and
  the parse rejects).
\<close>

datatype server_reply = Unreachable | Replied nat "json option"

text \<open>
  Reading a property of a parsed body. Reading from \<open>null\<close> throws a \<open>TypeError\<close>; an
  object gives the value of the property, the last one if the text repeated the key;
  the properties read here, \<open>success\<close> and \<open>error\<close>, are \<open>undefined\<close> on every
  other value.
\<close>

datatype exception = TypeError

fun getProperty :: "json \<Rightarrow> jsstring \<Rightarrow> exception + json option" where
  "getProperty JNull k = Inl TypeError"
| "getProperty (JObj ps) k = Inr (map_of (rev ps) k)"
| "getProperty (JBool b) k = Inr None"
| "getProperty (JNum n) k = Inr None"
| "getProperty (JStr s) k = Inr None"
| "getProperty (JArr vs) k = Inr None"

fun truthy_value :: "json option \<Rightarrow> bool" where
  "truthy_value None = False"
| "truthy_value (Some JNull) = False"
| "truthy_value (Some (JBool b)) = b"
| "truthy_value (Some (JNum n)) = (n \<noteq> 0)"
| "truthy_value (Some (JStr s)) = (s \<noteq> [])"
| "truthy_value (Some (JArr vs)) = True"
| "truthy_value (Some (JObj ps)) = True"

text \<open>\<open>v || d\<close> for a value read from a parsed body.\<close>

definition value_or :: "json option \<Rightarrow> json \<Rightarrow> json" where
  "value_or v d = (case v of None \<Rightarrow> d | Some x \<Rightarrow> if truthy_value v then x else d)"

definition contact_request :: "jsstring \<Rightarrow> jsstring \<Rightarrow> jsstring \<Rightarrow> jsstring \<Rightarrow> http_request" where
  "contact_request name email subject message =
     \<lparr>url = js ''/api/contact'',
      http_method = js ''POST'',
      http_headers = [(js ''Content-Type'', js ''application/json'')],
      http_body = JObj [(js ''name'', JStr name), (js ''email'', JStr email),
                        (js ''subject'', JStr subject), (js ''message'', JStr message)]\<rparr>"

text \<open>
  The submit handler. \<open>caught\<close> is the \<open>catch\<close> block: it runs when the \<open>fetch\<close>
  rejects, when the body is not JSON and when a property is read from \<open>null\<close>.
\<close>

definition onSubmit :: "server_reply \<Rightarrow> browser \<Rightarrow> browser" where
  "onSubmit net b =
     (let name = trim (name_value (form b));
          email = trim (email_value (form b));
          subject = trim (subject_value (form b));
          message = trim (message_value (form b))
      in
      if name = [] \<or> email = [] \<or> message = []
      then showToast (JStr (js ''Please fill in all required fields.'')) ''error'' b
      else if \<not> regex_test emailRegex email
      then showToast (JStr (js ''Please enter a valid email address.'')) ''error'' b
      else
        let originalHTML = innerHTML (submitBtn b);
            b1 = sending b;
            b2 = b1\<lparr>calls := calls b1 @ [Fetch (contact_request name email subject message)]\<rparr>;
            caught = restore originalHTML
                       (showToast (JStr (js ''Could not reach the server. Please check your connection.''))
                          ''error'' b2);
            otherwise = (\<lambda>data.
              case getProperty data (js ''error'') of
                Inl e \<Rightarrow> caught
              | Inr v \<Rightarrow>
                  restore originalHTML
                    (showToast (value_or v (JStr (js ''Something went wrong. Please try again.'')))
                       ''error'' b2))
        in
        (case net of
           Unreachable \<Rightarrow> caught
         | Replied st None \<Rightarrow> caught
         | Replied st (Some data) \<Rightarrow>
             if \<not> response_ok st then otherwise data
             else (case getProperty data (js ''success'') of
                     Inl e \<Rightarrow> caught
                   | Inr v \<Rightarrow> if truthy_value v then sent originalHTML b2 else otherwise data)))"

text \<open>\<open>response.ok && data.success\<close> is truthy.\<close>

definition indicates_success :: "json \<Rightarrow> bool" where
  "indicates_success data =
     (case getProperty data (js ''success'') of Inl e \<Rightarrow> False | Inr v \<Rightarrow> truthy_value v)"

subsection \<open>The client that calls the EmailJS SDK (js/contact.js)\<close>

definition EMAILJS_PUBLIC_KEY :: jsstring where
  "EMAILJS_PUBLIC_KEY = js ''YOUR_PUBLIC_KEY''"

definition EMAILJS_SERVICE_ID :: jsstring where
  "EMAILJS_SERVICE_ID = js ''YOUR_SERVICE_ID''"

definition NOTIFICATION_TEMPLATE_ID :: jsstring where
  "NOTIFICATION_TEMPLATE_ID = js ''YOUR_NOTIFICATION_TEMPLATE_ID''"

definition AUTOREPLY_TEMPLATE_ID :: jsstring where
  "AUTOREPLY_TEMPLATE_ID = js ''YOUR_AUTOREPLY_TEMPLATE_ID''"

text \<open>
  The submit handler (\<open>emailjs.init(EMAILJS_PUBLIC_KEY)\<close> has run when the page was
  loaded). \<open>sdk n\<close> tells whether the n-th \<open>emailjs.send\<close> of the
  submission resolves; the second is awaited after the first, and a rejection of
  either runs the \<open>catch\<close> block.
\<close>

definition onSubmit_emailjs :: "(nat \<Rightarrow> bool) \<Rightarrow> browser \<Rightarrow> browser" where
  "onSubmit_emailjs sdk b =
     (let name = trim (name_value (form b));
          email = trim (email_value (form b));
          subject = trim (subject_value (form b));
          message = trim (message_value (form b))
      in
      if name = [] \<or> email = [] \<or> message = []
      then showToast (JStr (js ''Please fill in all required fields.'')) ''error'' b
      else if \<not> regex_test emailRegex email
      then showToast (JStr (js ''Please enter a valid email address.'')) ''error'' b
      else
        let originalHTML = innerHTML (submitBtn b);
            b1 = sending b;
            templateParams = notification_params name email (Some subject) message;
            b2 = b1\<lparr>calls := calls b1
                         @ [EmailjsSend EMAILJS_SERVICE_ID NOTIFICATION_TEMPLATE_ID templateParams]\<rparr>;
            caught = (\<lambda>b'.
              restore originalHTML
                (showToast (JStr (js ''Failed to send message. Please try again.'')) ''error'' b'))
        in
        if \<not> sdk 0 then caught b2
        else
          let b3 = b2\<lparr>calls := calls b2
                           @ [EmailjsSend EMAILJS_SERVICE_ID AUTOREPLY_TEMPLATE_ID templateParams]\<rparr>
          in if \<not> sdk 1 then caught b3 else sent originalHTML b3)"

section \<open>Example inputs\<close>

text \<open>An environment with all five variables set, and the same without the notification template.\<close>

definition env_complete :: environment where
  "env_complete =
     [js ''EMAILJS_SERVICE_ID'' \<mapsto> js ''service_1'',
      js ''EMAILJS_NOTIFICATION_TEMPLATE_ID'' \<mapsto> js ''template_owner'',
      js ''EMAILJS_AUTOREPLY_TEMPLATE_ID'' \<mapsto> js ''template_visitor'',
      js ''EMAILJS_PUBLIC_KEY'' \<mapsto> js ''public'',
      js ''EMAILJS_PRIVATE_KEY'' \<mapsto> js ''private'']"

definition env_without_notification_template :: environment where
  "env_without_notification_template =
     [js ''EMAILJS_SERVICE_ID'' \<mapsto> js ''service_1'',
      js ''EMAILJS_AUTOREPLY_TEMPLATE_ID'' \<mapsto> js ''template_visitor'',
      js ''EMAILJS_PUBLIC_KEY'' \<mapsto> js ''public'',
      js ''EMAILJS_PRIVATE_KEY'' \<mapsto> js ''private'']"

definition env_without_private_key :: environment where
  "env_without_private_key =
     [js ''EMAILJS_SERVICE_ID'' \<mapsto> js ''service_1'',
      js ''EMAILJS_NOTIFICATION_TEMPLATE_ID'' \<mapsto> js ''template_owner'',
      js ''EMAILJS_AUTOREPLY_TEMPLATE_ID'' \<mapsto> js ''template_visitor'',
      js ''EMAILJS_PUBLIC_KEY'' \<mapsto> js ''public'']"

definition env_unset :: environment where
  "env_unset = Map.empty"

text \<open>A provider that accepts every call, and one that rejects every call.\<close>

definition provider_accepts :: "nat \<Rightarrow> fetch_outcome" where
  "provider_accepts n = Responded 200 (js ''OK'')"

definition provider_rejects :: "nat \<Rightarrow> fetch_outcome" where
  "provider_rejects n = Responded 400 (js ''Bad Request'')"

definition post :: "jsstring option \<Rightarrow> jsstring option \<Rightarrow> jsstring option \<Rightarrow> jsstring option \<Rightarrow> request" where
  "post name email subject message =
     \<lparr>req_method = js ''POST'',
      req_body = Some \<lparr>body_name = name, body_email = email, body_subject = subject,
                       body_message = message\<rparr>\<rparr>"

text \<open>The requests of the two end-to-end examples of the specification, and two more.\<close>

definition request_jo :: request where
  "request_jo = post (Some (js ''Jo'')) (Some (js ''jo@x.com'')) (Some []) (Some (js ''Hi''))"

definition request_without_name :: request where
  "request_without_name = post (Some []) (Some (js ''jo@x.com'')) None (Some (js ''Hi''))"

definition request_bad_address :: request where
  "request_bad_address = post (Some (js ''Jo'')) (Some (js ''not-an-address'')) None (Some (js ''Hi''))"

definition request_blank_name :: request where
  "request_blank_name = post (Some (js '' '')) (Some (js ''jo@x.com'')) None (Some (js ''Hi''))"

text \<open>A page with a filled form, and the same with an address that has no dot.\<close>

definition page_jo :: browser where
  "page_jo =
     \<lparr>form = \<lparr>name_value = js '' Jo '', email_value = js ''jo@x.com '', subject_value = [],
               message_value = js ''Hi''\<rparr>,
      form_defaults = \<lparr>name_value = [], email_value = [], subject_value = [], message_value = []\<rparr>,
      submitBtn = \<lparr>innerHTML = js ''Send Message'', disabled = False, background = []\<rparr>,
      toast = None, calls = [], timers = []\<rparr>"

definition page_bad_address :: browser where
  "page_bad_address = page_jo\<lparr>form := (form page_jo)\<lparr>email_value := js ''jo@x''\<rparr>\<rparr>"

text \<open>An answer of the handler after a failed send, and an SDK whose calls all resolve.\<close>

definition reply_send_failure :: server_reply where
  "reply_send_failure =
     Replied 500 (Some (JObj [(js ''error'', JStr (js ''Failed to send email. Please try again.'')),
                              (js ''details'', JStr (js ''EmailJS 400: Bad Request''))]))"

definition sdk_resolves :: "nat \<Rightarrow> bool" where
  "sdk_resolves n = True"

section \<open>Strings and the pattern\<close>

lemma post_not_options: "js ''POST'' \<noteq> js ''OPTIONS''"
  by (simp add: js_def)

text \<open>
  What \<open>+\<close> leaves: after a greedy repetition of an atom the remaining input is any
  proper suffix that is preceded by matching characters only.
\<close>

lemma greedy_iff:
  "r \<in> set (greedy a s) \<longleftrightarrow> (\<exists>w. s = w @ r \<and> w \<noteq> [] \<and> list_all (atom_matches a) w)"
proof (induction s)
  case Nil
  then show ?case by simp
next
  case (Cons c s)
  show ?case
  proof (cases "atom_matches a c")
    case False
    have "\<not> (\<exists>w. c # s = w @ r \<and> w \<noteq> [] \<and> list_all (atom_matches a) w)"
    proof
      assume "\<exists>w. c # s = w @ r \<and> w \<noteq> [] \<and> list_all (atom_matches a) w"
      then obtain w where w: "c # s = w @ r" "w \<noteq> []" "list_all (atom_matches a) w"
        by blast
      then obtain w' where "w = c # w'" by (cases w) auto
      with w(3) False show False by simp
    qed
    with False show ?thesis by simp
  next
    case True
    have "(\<exists>w. c # s = w @ r \<and> w \<noteq> [] \<and> list_all (atom_matches a) w)
          \<longleftrightarrow> r = s \<or> (\<exists>w. s = w @ r \<and> w \<noteq> [] \<and> list_all (atom_matches a) w)"
      (is "?L \<longleftrightarrow> ?R")
    proof
      assume ?L
      then obtain w where w: "c # s = w @ r" "w \<noteq> []" "list_all (atom_matches a) w"
        by blast
      then obtain w' where w': "w = c # w'" by (cases w) auto
      show ?R
      proof (cases "w' = []")
        case True
        with w(1) w' show ?thesis by simp
      next
        case False
        with w w' have "s = w' @ r \<and> w' \<noteq> [] \<and> list_all (atom_matches a) w'" by simp
        then show ?thesis by blast
      qed
    next
      assume ?R
      then show ?L
      proof
        assume "r = s"
        then have "c # s = [c] @ r \<and> [c] \<noteq> [] \<and> list_all (atom_matches a) [c]"
          using True by simp
        then show ?L by blast
      next
        assume "\<exists>w. s = w @ r \<and> w \<noteq> [] \<and> list_all (atom_matches a) w"
        then obtain w where "s = w @ r" "w \<noteq> []" "list_all (atom_matches a) w" by blast
        then have "c # s = (c # w) @ r \<and> c # w \<noteq> [] \<and> list_all (atom_matches a) (c # w)"
          using True by simp
        then show ?L by blast
      qed
    qed
    with True Cons.IH show ?thesis by auto
  qed
qed

lemma once_iff:
  "r \<in> set (match_term (Once a) s) \<longleftrightarrow> (\<exists>c. s = c # r \<and> atom_matches a c)"
  by (cases s) auto

lemma negated_class_iff:
  "atom_matches (NoneOf [ClassSpace, ClassChar 0x40]) = (\<lambda>c. \<not> isWhiteSpace c \<and> c \<noteq> 0x40)"
  by (rule ext) simp

lemma one_or_more_iff:
  "r \<in> set (match_term (OneOrMore (NoneOf [ClassSpace, ClassChar 0x40])) s)
     \<longleftrightarrow> (\<exists>w. s = w @ r \<and> plain_part w)"
  unfolding plain_part_def match_term.simps greedy_iff negated_class_iff by blast

text \<open>The pattern accepts exactly the strings of the shape that the specification words.\<close>

lemma emailRegex_iff: "regex_test emailRegex e \<longleftrightarrow> local_at_domain_tld e"
proof -
  have "regex_test emailRegex e \<longleftrightarrow>
      (\<exists>r1 r2 r3 r4. r1 \<in> set (match_term (OneOrMore (NoneOf [ClassSpace, ClassChar 0x40])) e)
         \<and> r2 \<in> set (match_term (Once (Lit 0x40)) r1)
         \<and> r3 \<in> set (match_term (OneOrMore (NoneOf [ClassSpace, ClassChar 0x40])) r2)
         \<and> r4 \<in> set (match_term (Once (Lit 0x2E)) r3)
         \<and> [] \<in> set (match_term (OneOrMore (NoneOf [ClassSpace, ClassChar 0x40])) r4))"
    (is "_ \<longleftrightarrow> ?M")
    unfolding regex_test_def emailRegex_def by (simp del: match_term.simps) blast
  also have "?M \<longleftrightarrow> local_at_domain_tld e"
  proof
    assume ?M
    then obtain l d t c1 c2 where
      "e = l @ c1 # d @ c2 # t" "plain_part l" "plain_part d" "plain_part t"
      "c1 = 0x40" "c2 = 0x2E"
      unfolding one_or_more_iff once_iff by auto
    then show "local_at_domain_tld e"
      unfolding local_at_domain_tld_def by auto
  next
    assume "local_at_domain_tld e"
    then obtain l d t where
      e: "e = l @ [0x40] @ d @ [0x2E] @ t" and p: "plain_part l" "plain_part d" "plain_part t"
      unfolding local_at_domain_tld_def by blast
    have 1: "\<exists>w. e = w @ (0x40 # d @ 0x2E # t) \<and> plain_part w" using e p(1) by auto
    have 2: "\<exists>c. 0x40 # d @ 0x2E # t = c # (d @ 0x2E # t) \<and> atom_matches (Lit 0x40) c" by simp
    have 3: "\<exists>w. d @ 0x2E # t = w @ (0x2E # t) \<and> plain_part w" using p(2) by auto
    have 4: "\<exists>c. 0x2E # t = c # t \<and> atom_matches (Lit 0x2E) c" by simp
    have 5: "\<exists>w. t = w @ [] \<and> plain_part w" using p(3) by auto
    show ?M
      unfolding one_or_more_iff once_iff using 1 2 3 4 5 by blast
  qed
  finally show ?thesis .
qed

section \<open>The handler, case by case\<close>

lemma required_fields_None_iff:
  "required_fields b = None \<longleftrightarrow>
     \<not> truthy (body_name b) \<or> \<not> truthy (body_email b) \<or> \<not> truthy (body_message b)"
  by (auto simp: required_fields_def truthy_def split: option.splits)

lemma required_fields_post:
  "required_fields (body_or_empty (req_body (post (Some name) (Some email) subject (Some message))))
     = (if name = [] \<or> email = [] \<or> message = [] then None else Some (name, email, message))"
  by (simp add: required_fields_def body_or_empty_def post_def)

lemma required_fields_has:
  "required_fields (body_or_empty (req_body req)) = None \<longleftrightarrow> \<not> has_required_fields req"
  by (auto simp: required_fields_None_iff has_required_fields_def body_or_empty_def truthy_def
           split: option.splits)

text \<open>The first listing.\<close>

lemma handler_not_post:
  "req_method req \<noteq> js ''POST'' \<Longrightarrow> trace (handler net env req) = []"
  by (simp add: handler_def Let_def)

lemma handler_incomplete:
  assumes "req_method req = js ''POST''" "\<not> has_required_fields req"
  shows "handler net env req =
           \<lparr>reply = send_json (error_body (js ''Name, email and message are required.''))
                      (status 400 (cors_headers fresh_response)),
            trace = []\<rparr>"
  using assms by (simp add: handler_def Let_def post_not_options required_fields_has [symmetric])

lemma handler_misconfigured:
  assumes "req_method req = js ''POST''"
    and "required_fields (body_or_empty (req_body req)) = Some (name, email, message)"
    and "\<not> truthy (env (js ''EMAILJS_SERVICE_ID'')) \<or> \<not> truthy (env (js ''EMAILJS_PUBLIC_KEY''))
         \<or> \<not> truthy (env (js ''EMAILJS_PRIVATE_KEY''))"
  shows "handler net env req =
           \<lparr>reply = send_json (error_body misconfiguration_message)
                      (status 500 (cors_headers fresh_response)),
            trace = []\<rparr>"
  using assms by (auto simp add: handler_def Let_def post_not_options)

lemma handler_first_fails:
  assumes "req_method req = js ''POST''"
    and "required_fields (body_or_empty (req_body req)) = Some (name, email, message)"
    and "truthy (env (js ''EMAILJS_SERVICE_ID''))" "truthy (env (js ''EMAILJS_PUBLIC_KEY''))"
        "truthy (env (js ''EMAILJS_PRIVATE_KEY''))"
    and "call_failed (net 0)"
  shows "\<exists>details. handler net env req =
           \<lparr>reply = send_json (JObj [(js ''error'', JStr (js ''Failed to send email. Please try again.'')),
                                     (js ''details'', JStr details)])
                      (status 500 (cors_headers fresh_response)),
            trace = [Issued (email_api_request
                       (email_payload env ''EMAILJS_NOTIFICATION_TEMPLATE_ID''
                          (notification_params name email (body_subject (body_or_empty (req_body req))) message))),
                     Settled (net 0)]\<rparr>"
proof (cases "net 0")
  case (Rejected m)
  then have "sendEmail net [] p = (Inl \<lparr>err_message = m, err_responseText = None\<rparr>,
            [Issued (email_api_request p), Settled (net 0)])" for p
    by (simp add: sendEmail_def)
  then show ?thesis
    using assms(1-5) by (simp add: handler_def Let_def post_not_options) blast
next
  case (Responded st t)
  with assms(6) have "\<not> response_ok st" by (simp add: call_failed_def)
  with Responded have "sendEmail net [] p =
      (Inl \<lparr>err_message = js ''EmailJS '' @ decimal st @ js '': '' @ t, err_responseText = Some t\<rparr>,
       [Issued (email_api_request p), Settled (net 0)])" for p
    by (simp add: sendEmail_def)
  then show ?thesis
    using assms(1-5) by (simp add: handler_def Let_def post_not_options) blast
qed

lemma handler_both_succeed:
  assumes "req_method req = js ''POST''"
    and "required_fields (body_or_empty (req_body req)) = Some (name, email, message)"
    and "truthy (env (js ''EMAILJS_SERVICE_ID''))" "truthy (env (js ''EMAILJS_PUBLIC_KEY''))"
        "truthy (env (js ''EMAILJS_PRIVATE_KEY''))"
    and "\<not> call_failed (net 0)" "\<not> call_failed (net 1)"
  shows "handler net env req =
     \<lparr>reply = send_json (JObj [(js ''success'', JBool True)]) (status 200 (cors_headers fresh_response)),
      trace =
           [Issued (email_api_request
                      (email_payload env ''EMAILJS_NOTIFICATION_TEMPLATE_ID''
                         (notification_params name email (body_subject (body_or_empty (req_body req))) message))),
            Settled (net 0),
            Issued (email_api_request
                      (email_payload env ''EMAILJS_AUTOREPLY_TEMPLATE_ID''
                         (autoreply_params name email (body_subject (body_or_empty (req_body req)))
                            (buildAutoReplyHtml name (body_subject (body_or_empty (req_body req))))))),
            Settled (net 1)]\<rparr>"
proof -
  obtain st0 t0 where 0: "net 0 = Responded st0 t0" "response_ok st0"
    using assms(6) by (cases "net 0") (auto simp: call_failed_def)
  obtain st1 t1 where 1: "net 1 = Responded st1 t1" "response_ok st1"
    using assms(7) by (cases "net 1") (auto simp: call_failed_def)
  have a: "sendEmail net [] p = (Inr (st0, t0), [Issued (email_api_request p), Settled (net 0)])" for p
    using 0 by (simp add: sendEmail_def)
  have b: "sendEmail net [Issued r, Settled (net 0)] p =
             (Inr (st1, t1), [Issued r, Settled (net 0), Issued (email_api_request p), Settled (net 1)])" for r p
    using 1 by (simp add: sendEmail_def)
  show ?thesis
    using assms(1-5) by (simp add: handler_def Let_def post_not_options a b)
qed

lemma handler_no_calls:
  assumes "\<not> has_required_fields req
           \<or> \<not> truthy (env (js ''EMAILJS_SERVICE_ID'')) \<or> \<not> truthy (env (js ''EMAILJS_PUBLIC_KEY''))
           \<or> \<not> truthy (env (js ''EMAILJS_PRIVATE_KEY''))"
  shows "trace (handler net env req) = []"
proof (cases "req_method req = js ''POST''")
  case False
  then show ?thesis by (rule handler_not_post)
next
  case True
  show ?thesis
  proof (cases "required_fields (body_or_empty (req_body req))")
    case None
    then have "\<not> has_required_fields req" by (simp add: required_fields_has)
    with True show ?thesis by (simp add: handler_incomplete)
  next
    case (Some f)
    obtain name email message where "f = (name, email, message)" by (cases f)
    with Some assms have "handler net env req =
           \<lparr>reply = send_json (error_body misconfiguration_message)
                      (status 500 (cors_headers fresh_response)),
            trace = []\<rparr>"
      using True by (intro handler_misconfigured) (auto simp: required_fields_has [symmetric])
    then show ?thesis by simp
  qed
qed

text \<open>The second listing.\<close>

lemma handler2_not_post:
  "req_method req \<noteq> js ''POST'' \<Longrightarrow> trace (handler2 net env req) = []"
  by (simp add: handler2_def Let_def)

lemma handler2_incomplete:
  assumes "req_method req = js ''POST''" "\<not> has_required_fields req"
  shows "handler2 net env req =
           \<lparr>reply = send_json (error_body (js ''Name, email and message are required.''))
                      (status 400 (cors_headers fresh_response)),
            trace = []\<rparr>"
  using assms by (simp add: handler2_def Let_def post_not_options required_fields_has [symmetric])

lemma handler2_bad_address:
  assumes "req_method req = js ''POST''"
    and "required_fields (body_or_empty (req_body req)) = Some (name, email, message)"
    and "\<not> regex_test emailRegex email"
  shows "handler2 net env req =
           \<lparr>reply = send_json (error_body (js ''Invalid email address.''))
                      (status 400 (cors_headers fresh_response)),
            trace = []\<rparr>"
  using assms by (simp add: handler2_def Let_def post_not_options)

lemma handler2_first_fails:
  assumes "req_method req = js ''POST''"
    and "required_fields (body_or_empty (req_body req)) = Some (name, email, message)"
    and "regex_test emailRegex email"
    and "call_failed (net 0)"
  shows "handler2 net env req =
           \<lparr>reply = send_json (error_body (js ''Failed to send email. Please try again.''))
                      (status 500 (cors_headers fresh_response)),
            trace = [Issued (email_api_request
                       (email_payload env ''EMAILJS_NOTIFICATION_TEMPLATE_ID''
                          (notification_params name email (body_subject (body_or_empty (req_body req))) message))),
                     Settled (net 0)]\<rparr>"
proof (cases "net 0")
  case (Rejected m)
  then have "sendEmail2 net [] p = (Inl \<lparr>err_message = m, err_responseText = None\<rparr>,
            [Issued (email_api_request p), Settled (net 0)])" for p
    by (simp add: sendEmail2_def)
  then show ?thesis
    using assms(1-3) by (simp add: handler2_def Let_def post_not_options)
next
  case (Responded st t)
  with assms(4) have "\<not> response_ok st" by (simp add: call_failed_def)
  with Responded have "sendEmail2 net [] p =
      (Inl \<lparr>err_message = js ''EmailJS responded with '' @ decimal st @ js '': '' @ t,
            err_responseText = None\<rparr>,
       [Issued (email_api_request p), Settled (net 0)])" for p
    by (simp add: sendEmail2_def)
  then show ?thesis
    using assms(1-3) by (simp add: handler2_def Let_def post_not_options)
qed

lemma handler2_no_calls:
  assumes "\<not> (has_required_fields req \<and> has_address_shape req)"
  shows "trace (handler2 net env req) = []"
proof (cases "req_method req = js ''POST''")
  case False
  then show ?thesis by (rule handler2_not_post)
next
  case True
  show ?thesis
  proof (cases "required_fields (body_or_empty (req_body req))")
    case None
    then have "\<not> has_required_fields req" by (simp add: required_fields_has)
    with True show ?thesis by (simp add: handler2_incomplete)
  next
    case (Some f)
    obtain name email message where f: "f = (name, email, message)" by (cases f)
    from Some have "has_required_fields req" using required_fields_has [of req] by simp
    with assms have "\<not> has_address_shape req" by simp
    moreover from Some f have "body_email (body_or_empty (req_body req)) = Some email"
      by (auto simp: required_fields_def split: option.splits if_splits)
    ultimately have "\<not> regex_test emailRegex email"
      by (auto simp: has_address_shape_def body_or_empty_def emailRegex_iff split: option.splits)
    with Some f True have "handler2 net env req =
           \<lparr>reply = send_json (error_body (js ''Invalid email address.''))
                      (status 400 (cors_headers fresh_response)),
            trace = []\<rparr>"
      by (intro handler2_bad_address) auto
    then show ?thesis by simp
  qed
qed

text \<open>What an outbound call implies, and the example inputs.\<close>

lemma handler2_both_succeed:
  assumes "req_method req = js ''POST''"
    and "required_fields (body_or_empty (req_body req)) = Some (name, email, message)"
    and "regex_test emailRegex email"
    and "\<not> call_failed (net 0)" "\<not> call_failed (net 1)"
  shows "handler2 net env req =
     \<lparr>reply = send_json (JObj [(js ''success'', JBool True)]) (status 200 (cors_headers fresh_response)),
      trace =
           [Issued (email_api_request
                      (email_payload env ''EMAILJS_NOTIFICATION_TEMPLATE_ID''
                         (notification_params name email (body_subject (body_or_empty (req_body req))) message))),
            Settled (net 0),
            Issued (email_api_request
                      (email_payload env ''EMAILJS_AUTOREPLY_TEMPLATE_ID''
                         (autoreply_params name email (body_subject (body_or_empty (req_body req)))
                            (buildAutoReplyHtml2 name (body_subject (body_or_empty (req_body req))))))),
            Settled (net 1)]\<rparr>"
proof -
  obtain st0 t0 where 0: "net 0 = Responded st0 t0" "response_ok st0"
    using assms(4) by (cases "net 0") (auto simp: call_failed_def)
  obtain st1 t1 where 1: "net 1 = Responded st1 t1" "response_ok st1"
    using assms(5) by (cases "net 1") (auto simp: call_failed_def)
  have a: "sendEmail2 net [] p = (Inr (st0, t0), [Issued (email_api_request p), Settled (net 0)])" for p
    using 0 by (simp add: sendEmail2_def)
  have b: "sendEmail2 net [Issued r, Settled (net 0)] p =
             (Inr (st1, t1), [Issued r, Settled (net 0), Issued (email_api_request p), Settled (net 1)])" for r p
    using 1 by (simp add: sendEmail2_def)
  show ?thesis
    using assms(1-3) by (simp add: handler2_def Let_def post_not_options a b)
qed

lemma handler_calls_imply:
  assumes "issued (trace (handler net env req)) \<noteq> []"
  shows "req_method req = js ''POST'' \<and> has_required_fields req
       \<and> truthy (env (js ''EMAILJS_SERVICE_ID'')) \<and> truthy (env (js ''EMAILJS_PUBLIC_KEY''))
       \<and> truthy (env (js ''EMAILJS_PRIVATE_KEY''))"
  using assms handler_no_calls [of req env net] handler_not_post [of req net env] by fastforce

lemma has_required_fields_obtain:
  assumes "has_required_fields req"
  obtains name email message where
    "required_fields (body_or_empty (req_body req)) = Some (name, email, message)"
  using assms required_fields_has [of req] by (cases "required_fields (body_or_empty (req_body req))") auto

lemma request_jo_fields:
  "req_method request_jo = js ''POST''"
  "required_fields (body_or_empty (req_body request_jo)) = Some (js ''Jo'', js ''jo@x.com'', js ''Hi'')"
  "body_subject (body_or_empty (req_body request_jo)) = Some []"
  by (simp_all add: request_jo_def post_def required_fields_def body_or_empty_def js_def)

lemma env_complete_truthy:
  "truthy (env_complete (js ''EMAILJS_SERVICE_ID''))"
  "truthy (env_complete (js ''EMAILJS_NOTIFICATION_TEMPLATE_ID''))"
  "truthy (env_complete (js ''EMAILJS_AUTOREPLY_TEMPLATE_ID''))"
  "truthy (env_complete (js ''EMAILJS_PUBLIC_KEY''))"
  "truthy (env_complete (js ''EMAILJS_PRIVATE_KEY''))"
  by (simp_all add: env_complete_def truthy_def js_def)

lemma provider_accepts_ok: "\<not> call_failed (provider_accepts n)"
  by (simp add: call_failed_def provider_accepts_def response_ok_def)

lemma provider_rejects_failed: "call_failed (provider_rejects n)"
  by (simp add: call_failed_def provider_rejects_def response_ok_def)

lemma handler2_calls_imply:
  assumes "issued (trace (handler2 net env req)) \<noteq> []"
  shows "has_required_fields req \<and> has_address_shape req"
  using assms handler2_no_calls [of req net env] by fastforce

lemma not_an_address: "\<not> local_at_domain_tld (js ''not-an-address'')"
  unfolding emailRegex_iff [symmetric]
  by (simp add: regex_test_def emailRegex_def js_def isWhiteSpace_def)

lemma jo_address: "regex_test emailRegex (js ''jo@x.com'')"
  by (simp add: regex_test_def emailRegex_def js_def isWhiteSpace_def)

section \<open>The claims about the handler\<close>

text \<open>
  Claim C1, as amended. In the first listing of the handler, whatever the other
  configuration values are, if the service identifier, the public key or the private
  key is absent or empty, the handler issues no outbound call for any request, and it
  answers a POST with non-empty name, email and message with status 500 and the
  misconfiguration message.
\<close>

theorem C1_guarded_configuration:
  assumes "\<not> truthy (env (js ''EMAILJS_SERVICE_ID''))
           \<or> \<not> truthy (env (js ''EMAILJS_PUBLIC_KEY''))
           \<or> \<not> truthy (env (js ''EMAILJS_PRIVATE_KEY''))"
  shows "issued (trace (handler net env req)) = []
       \<and> (name \<noteq> [] \<and> email \<noteq> [] \<and> message \<noteq> [] \<longrightarrow>
            res_status (reply (handler net env (post (Some name) (Some email) subject (Some message)))) = 500
            \<and> res_body (reply (handler net env (post (Some name) (Some email) subject (Some message))))
                = Some (JObj [(js ''error'', JStr misconfiguration_message)]))"
proof -
  have "trace (handler net env req) = []"
    using assms by (intro handler_no_calls) simp
  moreover have "handler net env (post (Some name) (Some email) subject (Some message)) =
           \<lparr>reply = send_json (error_body misconfiguration_message)
                      (status 500 (cors_headers fresh_response)),
            trace = []\<rparr>"
    if "name \<noteq> []" "email \<noteq> []" "message \<noteq> []"
    using that assms
    by (intro handler_misconfigured [where name = name and email = email and message = message])
       (simp_all add: required_fields_post, simp add: post_def)
  ultimately show ?thesis
    by (simp add: status_def send_json_def error_body_def)
qed

theorem C1_guarded_configuration_witness:
  "\<not> truthy (env_without_private_key (js ''EMAILJS_PRIVATE_KEY''))
   \<and> issued (trace (handler provider_accepts env_without_private_key request_jo)) = []
   \<and> res_status (reply (handler provider_accepts env_without_private_key request_jo)) = 500
   \<and> res_body (reply (handler provider_accepts env_without_private_key request_jo))
       = Some (JObj [(js ''error'', JStr misconfiguration_message)])"
proof -
  have k: "\<not> truthy (env_without_private_key (js ''EMAILJS_PRIVATE_KEY''))"
    by (simp add: env_without_private_key_def truthy_def js_def)
  have j: "js ''Jo'' \<noteq> [] \<and> js ''jo@x.com'' \<noteq> [] \<and> js ''Hi'' \<noteq> []"
    by (simp add: js_def)
  show ?thesis
    using k j C1_guarded_configuration [of env_without_private_key provider_accepts request_jo
        "js ''Jo''" "js ''jo@x.com''" "js ''Hi''" "Some []"]
    unfolding request_jo_def by blast
qed

text \<open>
  Claim C1 as stated fails where only a template identifier is absent: with the
  notification template unset the first listing calls the provider, twice when the
  provider accepts, and once, answering with the send failure, when it rejects. The
  second listing has no guard and calls the provider with nothing configured.
\<close>

theorem C1_counterexample:
  "env_without_notification_template (js ''EMAILJS_NOTIFICATION_TEMPLATE_ID'') = None
   \<and> length (issued (trace (handler provider_accepts env_without_notification_template request_jo))) = 2
   \<and> res_status (reply (handler provider_accepts env_without_notification_template request_jo)) = 200
   \<and> length (issued (trace (handler provider_rejects env_without_notification_template request_jo))) = 1
   \<and> res_body (reply (handler provider_rejects env_without_notification_template request_jo))
       = Some (JObj [(js ''error'', JStr (js ''Failed to send email. Please try again.'')),
                     (js ''details'', JStr (js ''EmailJS 400: Bad Request''))])
   \<and> env_unset (js ''EMAILJS_SERVICE_ID'') = None
   \<and> length (issued (trace (handler2 provider_accepts env_unset request_jo))) = 2"
proof -
  let ?env = env_without_notification_template
  have env: "truthy (?env (js ''EMAILJS_SERVICE_ID''))" "truthy (?env (js ''EMAILJS_PUBLIC_KEY''))"
      "truthy (?env (js ''EMAILJS_PRIVATE_KEY''))"
      "?env (js ''EMAILJS_NOTIFICATION_TEMPLATE_ID'') = None"
    by (simp_all add: env_without_notification_template_def truthy_def js_def)
  have "handler provider_rejects ?env request_jo =
      \<lparr>reply = send_json (JObj [(js ''error'', JStr (js ''Failed to send email. Please try again.'')),
                                (js ''details'', JStr (js ''EmailJS 400: Bad Request''))])
                 (status 500 (cors_headers fresh_response)),
       trace = [Issued (email_api_request
                       (email_payload ?env ''EMAILJS_NOTIFICATION_TEMPLATE_ID''
                          (notification_params (js ''Jo'') (js ''jo@x.com'') (Some []) (js ''Hi'')))),
                Settled (provider_rejects 0)]\<rparr>"
    using env(1-3)
    apply (simp add: handler_def Let_def post_not_options request_jo_fields sendEmail_def
        provider_rejects_def response_ok_def)
    apply (simp add: decimal.simps js_def)
    done
  then show ?thesis
    using handler_both_succeed [of request_jo _ _ _ ?env provider_accepts]
      handler2_both_succeed [of request_jo _ _ _ provider_accepts env_unset]
      request_jo_fields(1,2) env provider_accepts_ok jo_address
    by (simp add: status_def send_json_def env_unset_def)
qed

text \<open>
  Claim C2. Whenever the first outbound call, the notification, is issued and fails
  (the transport fails or the provider answers outside 200-299), the trace ends with
  that call, so the auto-reply call is never issued, and the handler answers with
  status 500 and the fixed message that sending failed, with the error text as
  \<open>details\<close>.
\<close>

theorem C2_first_call_fails:
  assumes "issued (trace (handler net env req)) \<noteq> []"
    and "call_failed (net 0)"
  shows "(\<exists>r. trace (handler net env req) = [Issued r, Settled (net 0)])
       \<and> res_status (reply (handler net env req)) = 500
       \<and> (\<exists>details. res_body (reply (handler net env req))
             = Some (JObj [(js ''error'', JStr (js ''Failed to send email. Please try again.'')),
                           (js ''details'', JStr details)]))"
proof -
  from assms(1) have c: "req_method req = js ''POST''" "has_required_fields req"
      "truthy (env (js ''EMAILJS_SERVICE_ID''))" "truthy (env (js ''EMAILJS_PUBLIC_KEY''))"
      "truthy (env (js ''EMAILJS_PRIVATE_KEY''))"
    using handler_calls_imply by blast+
  from c(2) obtain name email message where
    f: "required_fields (body_or_empty (req_body req)) = Some (name, email, message)"
    by (rule has_required_fields_obtain)
  have "\<exists>details. handler net env req =
           \<lparr>reply = send_json (JObj [(js ''error'', JStr (js ''Failed to send email. Please try again.'')),
                                     (js ''details'', JStr details)])
                      (status 500 (cors_headers fresh_response)),
            trace = [Issued (email_api_request
                       (email_payload env ''EMAILJS_NOTIFICATION_TEMPLATE_ID''
                          (notification_params name email (body_subject (body_or_empty (req_body req))) message))),
                     Settled (net 0)]\<rparr>"
    using c(1) f c(3-5) assms(2) by (rule handler_first_fails)
  then obtain details where "handler net env req =
           \<lparr>reply = send_json (JObj [(js ''error'', JStr (js ''Failed to send email. Please try again.'')),
                                     (js ''details'', JStr details)])
                      (status 500 (cors_headers fresh_response)),
            trace = [Issued (email_api_request
                       (email_payload env ''EMAILJS_NOTIFICATION_TEMPLATE_ID''
                          (notification_params name email (body_subject (body_or_empty (req_body req))) message))),
                     Settled (net 0)]\<rparr>"
    by blast
  then show ?thesis
    by (simp add: status_def send_json_def)
qed

theorem C2_first_call_fails_witness:
  "issued (trace (handler provider_rejects env_complete request_jo)) \<noteq> []
   \<and> call_failed (provider_rejects 0)
   \<and> length (issued (trace (handler provider_rejects env_complete request_jo))) = 1
   \<and> res_status (reply (handler provider_rejects env_complete request_jo)) = 500"
proof -
  have "\<exists>d. handler provider_rejects env_complete request_jo =
           \<lparr>reply = send_json (JObj [(js ''error'', JStr (js ''Failed to send email. Please try again.'')),
                                     (js ''details'', JStr d)])
                      (status 500 (cors_headers fresh_response)),
            trace = [Issued (email_api_request
                       (email_payload env_complete ''EMAILJS_NOTIFICATION_TEMPLATE_ID''
                          (notification_params (js ''Jo'') (js ''jo@x.com'')
                             (body_subject (body_or_empty (req_body request_jo))) (js ''Hi'')))),
                     Settled (provider_rejects 0)]\<rparr>"
    using request_jo_fields(1,2) env_complete_truthy(1,4,5) provider_rejects_failed [of 0]
    by (rule handler_first_fails)
  then have i: "issued (trace (handler provider_rejects env_complete request_jo)) \<noteq> []"
    by auto
  from C2_first_call_fails [of provider_rejects env_complete request_jo] i
    provider_rejects_failed [of 0]
  show ?thesis by auto
qed

text \<open>
  Claim C3. A POST with non-empty name, email and message, with the five
  configuration values present and both outbound calls succeeding, is answered with
  status 200 and \<open>{success: true}\<close>; the trace is the notification call, its
  settlement, the auto-reply call and its settlement, in this order, so the
  auto-reply is issued only after the notification has resolved.
\<close>

theorem C3_both_calls_succeed:
  assumes "name \<noteq> []" "email \<noteq> []" "message \<noteq> []"
    and "truthy (env (js ''EMAILJS_SERVICE_ID''))"
        "truthy (env (js ''EMAILJS_NOTIFICATION_TEMPLATE_ID''))"
        "truthy (env (js ''EMAILJS_AUTOREPLY_TEMPLATE_ID''))"
        "truthy (env (js ''EMAILJS_PUBLIC_KEY''))"
        "truthy (env (js ''EMAILJS_PRIVATE_KEY''))"
    and "\<not> call_failed (net 0)" "\<not> call_failed (net 1)"
  shows "res_status (reply (handler net env (post (Some name) (Some email) subject (Some message)))) = 200
       \<and> res_body (reply (handler net env (post (Some name) (Some email) subject (Some message))))
           = Some (JObj [(js ''success'', JBool True)])
       \<and> trace (handler net env (post (Some name) (Some email) subject (Some message)))
           = [Issued (email_api_request
                        (email_payload env ''EMAILJS_NOTIFICATION_TEMPLATE_ID''
                           (notification_params name email subject message))),
              Settled (net 0),
              Issued (email_api_request
                        (email_payload env ''EMAILJS_AUTOREPLY_TEMPLATE_ID''
                           (autoreply_params name email subject (buildAutoReplyHtml name subject)))),
              Settled (net 1)]"
proof -
  let ?req = "post (Some name) (Some email) subject (Some message)"
  have m: "req_method ?req = js ''POST''" by (simp add: post_def)
  have f: "required_fields (body_or_empty (req_body ?req)) = Some (name, email, message)"
    using assms(1-3) by (simp add: required_fields_post)
  have s: "body_subject (body_or_empty (req_body ?req)) = subject"
    by (simp add: post_def body_or_empty_def)
  show ?thesis
    using handler_both_succeed [of ?req name email message env net] m f assms(4,7,8,9,10)
    by (simp add: s status_def send_json_def)
qed

theorem C3_both_calls_succeed_witness:
  "res_status (reply (handler provider_accepts env_complete request_jo)) = 200
   \<and> res_body (reply (handler provider_accepts env_complete request_jo))
       = Some (JObj [(js ''success'', JBool True)])
   \<and> length (trace (handler provider_accepts env_complete request_jo)) = 4"
proof -
  have j: "js ''Jo'' \<noteq> []" "js ''jo@x.com'' \<noteq> []" "js ''Hi'' \<noteq> []"
    by (simp_all add: js_def)
  show ?thesis
    using C3_both_calls_succeed [of "js ''Jo''" "js ''jo@x.com''" "js ''Hi''" env_complete
        provider_accepts "Some []"] j env_complete_truthy provider_accepts_ok
    unfolding request_jo_def by simp
qed

text \<open>
  Claim C4. A POST whose body is missing, or in which name, email or message is
  missing or empty, is answered with status 400 and the body
  \<open>{error: "Name, email and message are required."}\<close>, and no outbound call is made.
\<close>

theorem C4_missing_field:
  assumes "req_method req = js ''POST''"
    and "req_body req = None
         \<or> (\<exists>b. req_body req = Some b
                \<and> (\<not> truthy (body_name b) \<or> \<not> truthy (body_email b) \<or> \<not> truthy (body_message b)))"
  shows "res_status (reply (handler net env req)) = 400
       \<and> res_body (reply (handler net env req))
           = Some (JObj [(js ''error'', JStr (js ''Name, email and message are required.''))])
       \<and> issued (trace (handler net env req)) = []"
proof -
  have "\<not> has_required_fields req"
    using assms(2) by (auto simp: has_required_fields_def)
  then show ?thesis
    using assms(1)
    by (simp add: handler_incomplete status_def send_json_def error_body_def)
qed

theorem C4_missing_field_witness:
  "res_status (reply (handler provider_accepts env_complete request_without_name)) = 400
   \<and> res_body (reply (handler provider_accepts env_complete request_without_name))
       = Some (JObj [(js ''error'', JStr (js ''Name, email and message are required.''))])
   \<and> issued (trace (handler provider_accepts env_complete request_without_name)) = []"
  using C4_missing_field [of request_without_name provider_accepts env_complete]
  by (simp add: request_without_name_def post_def truthy_def)

text \<open>
  Claim C5, as amended. A request reaches the email API only if name, email and
  message are present and non-empty as received (the handler does not trim), and in
  the second listing only if the address also has the shape of the pattern; a POST
  that fails these checks is answered with status 400 before any outbound call.
\<close>

theorem C5_checked_before_calling:
  "(issued (trace (handler net env req)) \<noteq> [] \<longrightarrow> has_required_fields req)
   \<and> (issued (trace (handler2 net env req)) \<noteq> [] \<longrightarrow>
        has_required_fields req \<and> has_address_shape req)
   \<and> (req_method req = js ''POST'' \<and> \<not> has_required_fields req \<longrightarrow>
        res_status (reply (handler net env req)) = 400
        \<and> res_status (reply (handler2 net env req)) = 400)
   \<and> (req_method req = js ''POST'' \<and> has_required_fields req \<and> \<not> has_address_shape req \<longrightarrow>
        res_status (reply (handler2 net env req)) = 400)"
proof (intro conjI impI)
  assume "issued (trace (handler net env req)) \<noteq> []"
  then show "has_required_fields req" using handler_calls_imply by blast
next
  assume a: "issued (trace (handler2 net env req)) \<noteq> []"
  then show "has_required_fields req" using handler2_calls_imply by blast
  from a show "has_address_shape req" using handler2_calls_imply by blast
next
  assume a: "req_method req = js ''POST'' \<and> \<not> has_required_fields req"
  then show "res_status (reply (handler net env req)) = 400"
    by (simp add: handler_incomplete status_def send_json_def)
  from a show "res_status (reply (handler2 net env req)) = 400"
    by (simp add: handler2_incomplete status_def send_json_def)
next
  assume a: "req_method req = js ''POST'' \<and> has_required_fields req \<and> \<not> has_address_shape req"
  then obtain name email message where
    f: "required_fields (body_or_empty (req_body req)) = Some (name, email, message)"
    using has_required_fields_obtain by blast
  then have "body_email (body_or_empty (req_body req)) = Some email"
    by (auto simp: required_fields_def split: option.splits if_splits)
  with a have "\<not> regex_test emailRegex email"
    by (auto simp: has_address_shape_def body_or_empty_def emailRegex_iff split: option.splits)
  with a f show "res_status (reply (handler2 net env req)) = 400"
    by (simp add: handler2_bad_address status_def send_json_def)
qed

theorem C5_checked_before_calling_witness:
  "issued (trace (handler provider_accepts env_complete request_jo)) \<noteq> []
   \<and> issued (trace (handler2 provider_accepts env_complete request_jo)) \<noteq> []
   \<and> has_required_fields request_jo \<and> has_address_shape request_jo
   \<and> req_method request_without_name = js ''POST'' \<and> \<not> has_required_fields request_without_name
   \<and> res_status (reply (handler provider_accepts env_complete request_without_name)) = 400
   \<and> res_status (reply (handler2 provider_accepts env_complete request_without_name)) = 400
   \<and> req_method request_bad_address = js ''POST'' \<and> has_required_fields request_bad_address
   \<and> \<not> has_address_shape request_bad_address
   \<and> res_status (reply (handler2 provider_accepts env_complete request_bad_address)) = 400"
proof -
  have 1: "issued (trace (handler provider_accepts env_complete request_jo)) \<noteq> []"
    using handler_both_succeed [of request_jo _ _ _ env_complete provider_accepts]
      request_jo_fields(1,2) env_complete_truthy(1,4,5) provider_accepts_ok
    by simp
  have 2: "issued (trace (handler2 provider_accepts env_complete request_jo)) \<noteq> []"
    using handler2_both_succeed [of request_jo _ _ _ provider_accepts env_complete]
      request_jo_fields(1,2) jo_address provider_accepts_ok
    by simp
  have 3: "req_method request_without_name = js ''POST'' \<and> \<not> has_required_fields request_without_name"
    by (simp add: request_without_name_def post_def has_required_fields_def truthy_def)
  have 4: "req_method request_bad_address = js ''POST'' \<and> has_required_fields request_bad_address
           \<and> \<not> has_address_shape request_bad_address"
    using not_an_address
    by (simp add: request_bad_address_def post_def has_required_fields_def has_address_shape_def
          truthy_def js_def)
  show ?thesis
    using C5_checked_before_calling [of provider_accepts env_complete request_jo]
      C5_checked_before_calling [of provider_accepts env_complete request_without_name]
      C5_checked_before_calling [of provider_accepts env_complete request_bad_address]
      1 2 3 4
    by blast
qed

text \<open>
  Claim C5 as stated fails: the first listing has no test of the address and calls
  the provider for the address \<open>not-an-address\<close>, and neither listing trims, so the
  second calls the provider for a name that is one space.
\<close>

theorem C5_counterexample:
  "\<not> local_at_domain_tld (js ''not-an-address'')
   \<and> length (issued (trace (handler provider_accepts env_complete request_bad_address))) = 2
   \<and> trim (js '' '') = []
   \<and> length (issued (trace (handler2 provider_accepts env_complete request_blank_name))) = 2"
proof -
  have a: "req_method request_bad_address = js ''POST''"
    "required_fields (body_or_empty (req_body request_bad_address))
       = Some (js ''Jo'', js ''not-an-address'', js ''Hi'')"
    by (simp_all add: request_bad_address_def post_def required_fields_def body_or_empty_def js_def)
  have b: "req_method request_blank_name = js ''POST''"
    "required_fields (body_or_empty (req_body request_blank_name))
       = Some (js '' '', js ''jo@x.com'', js ''Hi'')"
    by (simp_all add: request_blank_name_def post_def required_fields_def body_or_empty_def js_def)
  have t: "trim (js '' '') = []"
    by (simp add: trim_def js_def isWhiteSpace_def)
  show ?thesis
    using handler_both_succeed [of request_bad_address _ _ _ env_complete provider_accepts] a
      handler2_both_succeed [of request_blank_name _ _ _ provider_accepts env_complete] b
      env_complete_truthy(1,4,5) provider_accepts_ok jo_address not_an_address t
    by simp
qed

text \<open>
  Claim C9. With an absent or empty subject, a POST with non-empty name, email and
  message, the five configuration values present and both outbound calls succeeding,
  the handler issues two requests to the email API. The body of the first carries the
  template parameters from_name, from_email, reply_to, message and the subject
  \<open>(No subject)\<close>; the body of the second carries from_name, reply_to, the
  auto-reply document and the subject \<open>your message\<close>; and the answer is 200
  \<open>{success: true}\<close>. The witness is the example of the specification: name \<open>Jo\<close>,
  address \<open>jo@x.com\<close>, empty subject, message \<open>Hi\<close>.
\<close>

theorem C9_subject_placeholders:
  assumes "name \<noteq> []" "email \<noteq> []" "message \<noteq> []"
    and "subject = None \<or> subject = Some []"
    and "env (js ''EMAILJS_SERVICE_ID'') = Some service" "service \<noteq> []"
    and "env (js ''EMAILJS_NOTIFICATION_TEMPLATE_ID'') = Some notification" "notification \<noteq> []"
    and "env (js ''EMAILJS_AUTOREPLY_TEMPLATE_ID'') = Some autoreply" "autoreply \<noteq> []"
    and "env (js ''EMAILJS_PUBLIC_KEY'') = Some public" "public \<noteq> []"
    and "env (js ''EMAILJS_PRIVATE_KEY'') = Some private" "private \<noteq> []"
    and "\<not> call_failed (net 0)" "\<not> call_failed (net 1)"
  shows "issued (trace (handler net env (post (Some name) (Some email) subject (Some message))))
           = [\<lparr>url = js ''https://api.emailjs.com/api/v1.0/email/send'',
               http_method = js ''POST'',
               http_headers = [(js ''Content-Type'', js ''application/json'')],
               http_body =
                 JObj [(js ''service_id'', JStr service),
                       (js ''template_id'', JStr notification),
                       (js ''user_id'', JStr public),
                       (js ''accessToken'', JStr private),
                       (js ''template_params'',
                        JObj [(js ''from_name'', JStr name),
                              (js ''from_email'', JStr email),
                              (js ''reply_to'', JStr email),
                              (js ''subject'', JStr (js ''(No subject)'')),
                              (js ''message'', JStr message)])]\<rparr>,
              \<lparr>url = js ''https://api.emailjs.com/api/v1.0/email/send'',
               http_method = js ''POST'',
               http_headers = [(js ''Content-Type'', js ''application/json'')],
               http_body =
                 JObj [(js ''service_id'', JStr service),
                       (js ''template_id'', JStr autoreply),
                       (js ''user_id'', JStr public),
                       (js ''accessToken'', JStr private),
                       (js ''template_params'',
                        JObj [(js ''from_name'', JStr name),
                              (js ''reply_to'', JStr email),
                              (js ''subject'', JStr (js ''your message'')),
                              (js ''auto_reply_html'',
                               JStr (html_header @ name @ html_greeting @ name @ html_thanks
                                     @ js ''your message'' @ html_remainder))])]\<rparr>]
       \<and> res_status (reply (handler net env (post (Some name) (Some email) subject (Some message)))) = 200
       \<and> res_body (reply (handler net env (post (Some name) (Some email) subject (Some message))))
           = Some (JObj [(js ''success'', JBool True)])"
proof -
  let ?req = "post (Some name) (Some email) subject (Some message)"
  have m: "req_method ?req = js ''POST''" by (simp add: post_def)
  have f: "required_fields (body_or_empty (req_body ?req)) = Some (name, email, message)"
    using assms(1-3) by (simp add: required_fields_post)
  have s: "body_subject (body_or_empty (req_body ?req)) = subject"
    by (simp add: post_def body_or_empty_def)
  have p: "orElse subject d = d" for d
    using assms(4) by (auto simp: orElse_def)
  have t: "truthy (env (js ''EMAILJS_SERVICE_ID''))" "truthy (env (js ''EMAILJS_PUBLIC_KEY''))"
    "truthy (env (js ''EMAILJS_PRIVATE_KEY''))"
    using assms(5,6,11-14) by (simp_all add: truthy_def)
  have e: "email_payload env ''EMAILJS_NOTIFICATION_TEMPLATE_ID'' ps =
             JObj [(js ''service_id'', JStr service), (js ''template_id'', JStr notification),
                   (js ''user_id'', JStr public), (js ''accessToken'', JStr private),
                   (js ''template_params'', JObj ps)]"
    "email_payload env ''EMAILJS_AUTOREPLY_TEMPLATE_ID'' ps =
             JObj [(js ''service_id'', JStr service), (js ''template_id'', JStr autoreply),
                   (js ''user_id'', JStr public), (js ''accessToken'', JStr private),
                   (js ''template_params'', JObj ps)]" for ps
    using assms(5,7,9,11,13) by (simp_all add: email_payload_def property_def)
  have h: "buildAutoReplyHtml name subject =
             html_header @ name @ html_greeting @ name @ html_thanks @ js ''your message''
             @ html_remainder"
    by (simp add: buildAutoReplyHtml_def Let_def p)
  show ?thesis
    using handler_both_succeed [of ?req name email message env net] m f t assms(15,16)
    by (simp add: s p e h status_def send_json_def notification_params_def autoreply_params_def
          email_api_request_def)
qed

theorem C9_subject_placeholders_witness:
  "issued (trace (handler provider_accepts env_complete request_jo))
     = [\<lparr>url = js ''https://api.emailjs.com/api/v1.0/email/send'',
         http_method = js ''POST'',
         http_headers = [(js ''Content-Type'', js ''application/json'')],
         http_body =
           JObj [(js ''service_id'', JStr (js ''service_1'')),
                 (js ''template_id'', JStr (js ''template_owner'')),
                 (js ''user_id'', JStr (js ''public'')),
                 (js ''accessToken'', JStr (js ''private'')),
                 (js ''template_params'',
                  JObj [(js ''from_name'', JStr (js ''Jo'')),
                        (js ''from_email'', JStr (js ''jo@x.com'')),
                        (js ''reply_to'', JStr (js ''jo@x.com'')),
                        (js ''subject'', JStr (js ''(No subject)'')),
                        (js ''message'', JStr (js ''Hi''))])]\<rparr>,
        \<lparr>url = js ''https://api.emailjs.com/api/v1.0/email/send'',
         http_method = js ''POST'',
         http_headers = [(js ''Content-Type'', js ''application/json'')],
         http_body =
           JObj [(js ''service_id'', JStr (js ''service_1'')),
                 (js ''template_id'', JStr (js ''template_visitor'')),
                 (js ''user_id'', JStr (js ''public'')),
                 (js ''accessToken'', JStr (js ''private'')),
                 (js ''template_params'',
                  JObj [(js ''from_name'', JStr (js ''Jo'')),
                        (js ''reply_to'', JStr (js ''jo@x.com'')),
                        (js ''subject'', JStr (js ''your message'')),
                        (js ''auto_reply_html'',
                         JStr (html_header @ js ''Jo'' @ html_greeting @ js ''Jo'' @ html_thanks
                               @ js ''your message'' @ html_remainder))])]\<rparr>]
   \<and> res_status (reply (handler provider_accepts env_complete request_jo)) = 200
   \<and> res_body (reply (handler provider_accepts env_complete request_jo))
       = Some (JObj [(js ''success'', JBool True)])"
proof -
  have j: "js ''Jo'' \<noteq> []" "js ''jo@x.com'' \<noteq> []" "js ''Hi'' \<noteq> []"
    by (simp_all add: js_def)
  have e: "Some [] = None \<or> Some [] = Some ([] :: jsstring)" by simp
  have v: "env_complete (js ''EMAILJS_SERVICE_ID'') = Some (js ''service_1'')"
    "env_complete (js ''EMAILJS_NOTIFICATION_TEMPLATE_ID'') = Some (js ''template_owner'')"
    "env_complete (js ''EMAILJS_AUTOREPLY_TEMPLATE_ID'') = Some (js ''template_visitor'')"
    "env_complete (js ''EMAILJS_PUBLIC_KEY'') = Some (js ''public'')"
    "env_complete (js ''EMAILJS_PRIVATE_KEY'') = Some (js ''private'')"
    by (simp_all add: env_complete_def js_def)
  have n: "js ''service_1'' \<noteq> []" "js ''template_owner'' \<noteq> []"
    "js ''template_visitor'' \<noteq> []" "js ''public'' \<noteq> []" "js ''private'' \<noteq> []"
    by (simp_all add: js_def)
  show ?thesis
    using C9_subject_placeholders [of "js ''Jo''" "js ''jo@x.com''" "js ''Hi''" "Some []"
        env_complete "js ''service_1''" "js ''template_owner''" "js ''template_visitor''"
        "js ''public''" "js ''private''" provider_accepts, OF j e v(1) n(1) v(2) n(2) v(3) n(3)
        v(4) n(4) v(5) n(5) provider_accepts_ok provider_accepts_ok]
    unfolding request_jo_def by simp
qed

section \<open>The form clients, case by case\<close>

lemma onSubmit_rejected_empty:
  assumes "trim (name_value (form b)) = [] \<or> trim (email_value (form b)) = []
           \<or> trim (message_value (form b)) = []"
  shows "onSubmit net b = showToast (JStr (js ''Please fill in all required fields.'')) ''error'' b"
  using assms by (auto simp: onSubmit_def Let_def)

lemma onSubmit_rejected_address:
  assumes "trim (name_value (form b)) \<noteq> []" "trim (email_value (form b)) \<noteq> []"
    "trim (message_value (form b)) \<noteq> []"
    and "\<not> local_at_domain_tld (trim (email_value (form b)))"
  shows "onSubmit net b = showToast (JStr (js ''Please enter a valid email address.'')) ''error'' b"
  using assms by (simp add: onSubmit_def Let_def emailRegex_iff)

lemma onSubmit_calls:
  assumes "trim (name_value (form b)) \<noteq> []" "trim (email_value (form b)) \<noteq> []"
    "trim (message_value (form b)) \<noteq> []"
    and "local_at_domain_tld (trim (email_value (form b)))"
  shows "calls (onSubmit net b) =
           calls b @ [Fetch (contact_request (trim (name_value (form b))) (trim (email_value (form b)))
                               (trim (subject_value (form b))) (trim (message_value (form b))))]"
  using assms
  by (simp add: onSubmit_def Let_def emailRegex_iff sending_def sent_def restore_def showToast_def
           split: server_reply.splits option.splits sum.splits)

lemma onSubmit_failure_form:
  assumes "trim (name_value (form b)) \<noteq> []" "trim (email_value (form b)) \<noteq> []"
    "trim (message_value (form b)) \<noteq> []"
    and "local_at_domain_tld (trim (email_value (form b)))"
    and "net = Unreachable
         \<or> (\<exists>st body. net = Replied st body
               \<and> (\<not> response_ok st \<or> (case body of None \<Rightarrow> True | Some data \<Rightarrow> \<not> indicates_success data)))"
  shows "\<exists>msg. onSubmit net b =
           restore (innerHTML (submitBtn b))
             (showToast msg ''error''
                ((sending b)\<lparr>calls := calls (sending b)
                   @ [Fetch (contact_request (trim (name_value (form b))) (trim (email_value (form b)))
                               (trim (subject_value (form b))) (trim (message_value (form b))))]\<rparr>))"
proof -
  have v: "\<not> (trim (name_value (form b)) = [] \<or> trim (email_value (form b)) = []
              \<or> trim (message_value (form b)) = [])"
    "regex_test emailRegex (trim (email_value (form b)))"
    using assms(1-4) by (simp_all add: emailRegex_iff)
  show ?thesis
  proof (cases net)
    case Unreachable
    then show ?thesis using v by (simp add: onSubmit_def Let_def) blast
  next
    case (Replied st body)
    show ?thesis
    proof (cases body)
      case None
      with Replied show ?thesis using v by (simp add: onSubmit_def Let_def) blast
    next
      case (Some data)
      have otherwise: "\<exists>msg.
          (case getProperty data (js ''error'') of
             Inl e \<Rightarrow> restore (innerHTML (submitBtn b))
                       (showToast (JStr (js ''Could not reach the server. Please check your connection.''))
                          ''error'' b2)
           | Inr v \<Rightarrow> restore (innerHTML (submitBtn b))
                       (showToast (value_or v (JStr (js ''Something went wrong. Please try again.'')))
                          ''error'' b2))
          = restore (innerHTML (submitBtn b)) (showToast msg ''error'' b2)" for b2
        by (cases "getProperty data (js ''error'')") auto
      show ?thesis
      proof (cases "response_ok st")
        case False
        with Replied Some show ?thesis
          using v otherwise by (simp add: onSubmit_def Let_def)
      next
        case True
        with assms(5) Replied Some have n: "\<not> indicates_success data" by simp
        show ?thesis
        proof (cases "getProperty data (js ''success'')")
          case (Inl e)
          with Replied Some True show ?thesis
            using v by (simp add: onSubmit_def Let_def) blast
        next
          case (Inr x)
          with n have "\<not> truthy_value x" by (simp add: indicates_success_def)
          with Inr Replied Some True show ?thesis
            using v otherwise by (simp add: onSubmit_def Let_def)
        qed
      qed
    qed
  qed
qed

text \<open>
  After a success the form is reset by the timer of three seconds only, and the
  callback of that timer gives the control its original label back.
\<close>

lemma onSubmit_success:
  assumes "trim (name_value (form b)) \<noteq> []" "trim (email_value (form b)) \<noteq> []"
    "trim (message_value (form b)) \<noteq> []"
    and "local_at_domain_tld (trim (email_value (form b)))"
    and "response_ok st" "indicates_success data"
  shows "form (onSubmit (Replied st (Some data)) b) = form b
       \<and> disabled (submitBtn (onSubmit (Replied st (Some data)) b))
       \<and> timers (onSubmit (Replied st (Some data)) b)
           = timers b @ [(5000, RemoveToast), (3000, ResetForm (innerHTML (submitBtn b)))]
       \<and> form (resetCallback (innerHTML (submitBtn b)) (onSubmit (Replied st (Some data)) b))
           = form_defaults b
       \<and> submitBtn (resetCallback (innerHTML (submitBtn b)) (onSubmit (Replied st (Some data)) b))
           = (submitBtn b)\<lparr>background := [], disabled := False\<rparr>"
proof -
  obtain v where "getProperty data (js ''success'') = Inr v" "truthy_value v"
    using assms(6) by (cases "getProperty data (js ''success'')") (auto simp: indicates_success_def)
  then show ?thesis
    using assms(1-5)
    by (simp add: onSubmit_def Let_def emailRegex_iff sent_def sending_def showToast_def
          resetCallback_def)
qed

lemma onSubmit_emailjs_rejected_address:
  assumes "trim (name_value (form b)) \<noteq> []" "trim (email_value (form b)) \<noteq> []"
    "trim (message_value (form b)) \<noteq> []"
    and "\<not> local_at_domain_tld (trim (email_value (form b)))"
  shows "onSubmit_emailjs sdk b = showToast (JStr (js ''Please enter a valid email address.'')) ''error'' b"
  using assms by (simp add: onSubmit_emailjs_def Let_def emailRegex_iff)

lemma onSubmit_emailjs_calls:
  assumes "trim (name_value (form b)) \<noteq> []" "trim (email_value (form b)) \<noteq> []"
    "trim (message_value (form b)) \<noteq> []"
    and "local_at_domain_tld (trim (email_value (form b)))"
  shows "calls (onSubmit_emailjs sdk b) =
           calls b
           @ EmailjsSend EMAILJS_SERVICE_ID NOTIFICATION_TEMPLATE_ID
               (notification_params (trim (name_value (form b))) (trim (email_value (form b)))
                  (Some (trim (subject_value (form b)))) (trim (message_value (form b))))
           # (if sdk 0
              then [EmailjsSend EMAILJS_SERVICE_ID AUTOREPLY_TEMPLATE_ID
                      (notification_params (trim (name_value (form b))) (trim (email_value (form b)))
                         (Some (trim (subject_value (form b)))) (trim (message_value (form b))))]
              else [])"
  using assms
  by (simp add: onSubmit_emailjs_def Let_def emailRegex_iff sending_def sent_def restore_def
        showToast_def)

lemma page_jo_fields:
  "trim (name_value (form page_jo)) = js ''Jo''"
  "trim (email_value (form page_jo)) = js ''jo@x.com''"
  "trim (subject_value (form page_jo)) = []"
  "trim (message_value (form page_jo)) = js ''Hi''"
  "calls page_jo = []"
  by (simp_all add: page_jo_def trim_def js_def isWhiteSpace_def)

lemma page_bad_address_fields:
  "trim (name_value (form page_bad_address)) = js ''Jo''"
  "trim (email_value (form page_bad_address)) = js ''jo@x''"
  "trim (subject_value (form page_bad_address)) = []"
  "trim (message_value (form page_bad_address)) = js ''Hi''"
  "calls page_bad_address = []"
  by (simp_all add: page_bad_address_def page_jo_def trim_def js_def isWhiteSpace_def)

lemma literals_not_empty: "js ''Jo'' \<noteq> []" "js ''jo@x.com'' \<noteq> []" "js ''Hi'' \<noteq> []" "js ''jo@x'' \<noteq> []"
  by (simp_all add: js_def)

lemma jo_address_shape: "local_at_domain_tld (js ''jo@x.com'')"
  using jo_address by (simp add: emailRegex_iff)

lemma no_dot_address: "\<not> local_at_domain_tld (js ''jo@x'')"
  unfolding emailRegex_iff [symmetric]
  by (simp add: regex_test_def emailRegex_def js_def isWhiteSpace_def)

section \<open>The claims about the form clients\<close>

text \<open>
  Claim C6, as amended. For every form whose trimmed name, email and message are
  non-empty and whose trimmed email has the shape of the pattern, the client that
  submits to the handler issues exactly one request: a POST to \<open>/api/contact\<close> with
  the header \<open>Content-Type: application/json\<close> and a JSON body whose keys are exactly
  name, email, subject and message and whose values are the trimmed contents of the
  fields. The client of js/contact.js issues no such request: it calls
  \<open>emailjs.send\<close> for the notification template and, once that has resolved, for the
  auto-reply template.
\<close>

theorem C6_fetch_client_posts_once:
  assumes "trim (name_value (form b)) \<noteq> []" "trim (email_value (form b)) \<noteq> []"
    "trim (message_value (form b)) \<noteq> []"
    and "local_at_domain_tld (trim (email_value (form b)))"
  shows "calls (onSubmit net b) =
           calls b @ [Fetch \<lparr>url = js ''/api/contact'',
                            http_method = js ''POST'',
                            http_headers = [(js ''Content-Type'', js ''application/json'')],
                            http_body = JObj [(js ''name'', JStr (trim (name_value (form b)))),
                                              (js ''email'', JStr (trim (email_value (form b)))),
                                              (js ''subject'', JStr (trim (subject_value (form b)))),
                                              (js ''message'', JStr (trim (message_value (form b))))]\<rparr>]
       \<and> calls (onSubmit_emailjs sdk b) =
           calls b
           @ EmailjsSend EMAILJS_SERVICE_ID NOTIFICATION_TEMPLATE_ID
               (notification_params (trim (name_value (form b))) (trim (email_value (form b)))
                  (Some (trim (subject_value (form b)))) (trim (message_value (form b))))
           # (if sdk 0
              then [EmailjsSend EMAILJS_SERVICE_ID AUTOREPLY_TEMPLATE_ID
                      (notification_params (trim (name_value (form b))) (trim (email_value (form b)))
                         (Some (trim (subject_value (form b)))) (trim (message_value (form b))))]
              else [])"
  using onSubmit_calls [OF assms] onSubmit_emailjs_calls [OF assms]
  by (simp add: contact_request_def)

theorem C6_fetch_client_posts_once_witness:
  "calls (onSubmit reply_send_failure page_jo) =
     [Fetch \<lparr>url = js ''/api/contact'',
              http_method = js ''POST'',
              http_headers = [(js ''Content-Type'', js ''application/json'')],
              http_body = JObj [(js ''name'', JStr (js ''Jo'')),
                                (js ''email'', JStr (js ''jo@x.com'')),
                                (js ''subject'', JStr []),
                                (js ''message'', JStr (js ''Hi''))]\<rparr>]"
  using C6_fetch_client_posts_once [of page_jo reply_send_failure sdk_resolves]
    literals_not_empty jo_address_shape
  by (simp add: page_jo_fields)

text \<open>
  Claim C6 as stated fails for the client of js/contact.js: for a valid form its
  network calls are two calls of the SDK and no POST to the submission endpoint.
\<close>

theorem C6_counterexample:
  "trim (name_value (form page_jo)) = js ''Jo''
   \<and> trim (email_value (form page_jo)) = js ''jo@x.com''
   \<and> trim (message_value (form page_jo)) = js ''Hi''
   \<and> local_at_domain_tld (js ''jo@x.com'')
   \<and> calls (onSubmit_emailjs sdk_resolves page_jo) =
       [EmailjsSend EMAILJS_SERVICE_ID NOTIFICATION_TEMPLATE_ID
          [(js ''from_name'', JStr (js ''Jo'')),
           (js ''from_email'', JStr (js ''jo@x.com'')),
           (js ''reply_to'', JStr (js ''jo@x.com'')),
           (js ''subject'', JStr (js ''(No subject)'')),
           (js ''message'', JStr (js ''Hi''))],
        EmailjsSend EMAILJS_SERVICE_ID AUTOREPLY_TEMPLATE_ID
          [(js ''from_name'', JStr (js ''Jo'')),
           (js ''from_email'', JStr (js ''jo@x.com'')),
           (js ''reply_to'', JStr (js ''jo@x.com'')),
           (js ''subject'', JStr (js ''(No subject)'')),
           (js ''message'', JStr (js ''Hi''))]]"
  using onSubmit_emailjs_calls [of page_jo sdk_resolves] literals_not_empty jo_address_shape
  by (simp add: page_jo_fields notification_params_def orElse_def sdk_resolves_def)

text \<open>
  Claim C7. With non-empty trimmed name, email and message, a trimmed address that
  does not have the shape \<open>local@domain.tld\<close> makes either client show the
  invalid-address notification and issue no network call, and an address of that
  shape makes either client issue one: the clients accept exactly the addresses of
  the pattern.
\<close>

theorem C7_address_pattern:
  assumes "trim (name_value (form b)) \<noteq> []" "trim (email_value (form b)) \<noteq> []"
    "trim (message_value (form b)) \<noteq> []"
  shows "(\<not> local_at_domain_tld (trim (email_value (form b))) \<longrightarrow>
            calls (onSubmit net b) = calls b
            \<and> toast (onSubmit net b)
                = Some (JStr (js ''Please enter a valid email address.''), js ''error'')
            \<and> calls (onSubmit_emailjs sdk b) = calls b
            \<and> toast (onSubmit_emailjs sdk b)
                = Some (JStr (js ''Please enter a valid email address.''), js ''error''))
       \<and> (local_at_domain_tld (trim (email_value (form b))) \<longrightarrow>
            calls (onSubmit net b) \<noteq> calls b \<and> calls (onSubmit_emailjs sdk b) \<noteq> calls b)"
proof (intro conjI impI)
  assume n: "\<not> local_at_domain_tld (trim (email_value (form b)))"
  have 1: "onSubmit net b = showToast (JStr (js ''Please enter a valid email address.'')) ''error'' b"
    using assms n by (rule onSubmit_rejected_address)
  have 2: "onSubmit_emailjs sdk b
             = showToast (JStr (js ''Please enter a valid email address.'')) ''error'' b"
    using assms n by (rule onSubmit_emailjs_rejected_address)
  show "calls (onSubmit net b) = calls b"
    and "toast (onSubmit net b) = Some (JStr (js ''Please enter a valid email address.''), js ''error'')"
    and "calls (onSubmit_emailjs sdk b) = calls b"
    and "toast (onSubmit_emailjs sdk b)
           = Some (JStr (js ''Please enter a valid email address.''), js ''error'')"
    unfolding 1 2 by (simp_all add: showToast_def)
next
  assume y: "local_at_domain_tld (trim (email_value (form b)))"
  show "calls (onSubmit net b) \<noteq> calls b"
    using onSubmit_calls [OF assms y] by simp
  show "calls (onSubmit_emailjs sdk b) \<noteq> calls b"
    using onSubmit_emailjs_calls [OF assms y] by simp
qed

theorem C7_address_pattern_witness:
  "\<not> local_at_domain_tld (trim (email_value (form page_bad_address)))
   \<and> calls (onSubmit reply_send_failure page_bad_address) = []
   \<and> toast (onSubmit reply_send_failure page_bad_address)
       = Some (JStr (js ''Please enter a valid email address.''), js ''error'')
   \<and> calls (onSubmit_emailjs sdk_resolves page_bad_address) = []
   \<and> toast (onSubmit_emailjs sdk_resolves page_bad_address)
       = Some (JStr (js ''Please enter a valid email address.''), js ''error'')
   \<and> local_at_domain_tld (trim (email_value (form page_jo)))
   \<and> calls (onSubmit reply_send_failure page_jo) \<noteq> []
   \<and> calls (onSubmit_emailjs sdk_resolves page_jo) \<noteq> []"
  using C7_address_pattern [of page_bad_address reply_send_failure sdk_resolves]
    C7_address_pattern [of page_jo reply_send_failure sdk_resolves]
    literals_not_empty jo_address_shape no_dot_address
  by (simp add: page_jo_fields page_bad_address_fields)

text \<open>
  Claim C8. When a submission of the client that posts to the handler fails (the
  request is rejected by the network, the status is outside 200-299, the body is not
  JSON or does not indicate success), the submit control has its original label and
  is enabled again, the form fields are unchanged, and no reset of the form is
  scheduled: the only new timer is the one that removes the toast.
\<close>

theorem C8_failure_restores_control:
  assumes "trim (name_value (form b)) \<noteq> []" "trim (email_value (form b)) \<noteq> []"
    "trim (message_value (form b)) \<noteq> []"
    and "local_at_domain_tld (trim (email_value (form b)))"
    and "net = Unreachable
         \<or> (\<exists>st body. net = Replied st body
               \<and> (\<not> response_ok st \<or> (case body of None \<Rightarrow> True | Some data \<Rightarrow> \<not> indicates_success data)))"
  shows "innerHTML (submitBtn (onSubmit net b)) = innerHTML (submitBtn b)
       \<and> \<not> disabled (submitBtn (onSubmit net b))
       \<and> background (submitBtn (onSubmit net b)) = background (submitBtn b)
       \<and> form (onSubmit net b) = form b
       \<and> timers (onSubmit net b) = timers b @ [(5000, RemoveToast)]"
proof -
  obtain msg where "onSubmit net b =
           restore (innerHTML (submitBtn b))
             (showToast msg ''error''
                ((sending b)\<lparr>calls := calls (sending b)
                   @ [Fetch (contact_request (trim (name_value (form b))) (trim (email_value (form b)))
                               (trim (subject_value (form b))) (trim (message_value (form b))))]\<rparr>))"
    using onSubmit_failure_form [OF assms] by blast
  then show ?thesis
    by (simp add: restore_def showToast_def sending_def)
qed

theorem C8_failure_restores_control_witness:
  "innerHTML (submitBtn (onSubmit reply_send_failure page_jo)) = js ''Send Message''
   \<and> \<not> disabled (submitBtn (onSubmit reply_send_failure page_jo))
   \<and> form (onSubmit reply_send_failure page_jo) = form page_jo
   \<and> timers (onSubmit reply_send_failure page_jo) = [(5000, RemoveToast)]
   \<and> innerHTML (submitBtn (onSubmit Unreachable page_jo)) = js ''Send Message''
   \<and> \<not> disabled (submitBtn (onSubmit Unreachable page_jo))
   \<and> form (onSubmit Unreachable page_jo) = form page_jo"
proof -
  have f: "reply_send_failure = Unreachable
         \<or> (\<exists>st body. reply_send_failure = Replied st body
               \<and> (\<not> response_ok st \<or> (case body of None \<Rightarrow> True | Some data \<Rightarrow> \<not> indicates_success data)))"
    by (simp add: reply_send_failure_def response_ok_def)
  have p: "innerHTML (submitBtn page_jo) = js ''Send Message''" "timers page_jo = []"
    by (simp_all add: page_jo_def)
  show ?thesis
    using C8_failure_restores_control [of page_jo reply_send_failure]
      C8_failure_restores_control [of page_jo Unreachable]
      f literals_not_empty jo_address_shape
    by (simp add: page_jo_fields p)
qed

section \<open>The claim about the auto-reply document\<close>

lemma splitString_not_empty: "splitString s sep \<noteq> []"
  by (induction s) (auto split: list.splits)

lemma splitString_first:
  "(case splitString s sep of w # ws \<Rightarrow> w | [] \<Rightarrow> d) = takeWhile (\<lambda>c. c \<noteq> sep) s"
proof (induction s)
  case Nil
  then show ?case by simp
next
  case (Cons c s)
  obtain w ws where "splitString s sep = w # ws"
    using splitString_not_empty [of s sep] by (cases "splitString s sep") auto
  with Cons show ?case by simp
qed

text \<open>
  Claim C10, as amended. For every name and subject, \<open>buildAutoReplyHtml\<close> returns
  its fixed text with the name embedded verbatim, unescaped, at the two points
  written \<^verbatim>\<open>${name}\<close>, and with the subject embedded verbatim when it is
  non-empty and the text \<open>your message\<close> when it is empty or absent. The second
  listing has a further point, \<^verbatim>\<open>${name.split(' ')[0]}\<close>, which embeds the name
  up to its first space, unescaped as well.
\<close>

theorem C10_template_interpolation:
  "buildAutoReplyHtml name subject =
     html_header @ name @ html_greeting @ name @ html_thanks
     @ (case subject of None \<Rightarrow> js ''your message''
        | Some s \<Rightarrow> if s = [] then js ''your message'' else s)
     @ html_remainder
   \<and> buildAutoReplyHtml2 name subject =
     html2_header @ name @ html2_greeting @ name @ html2_thanks
     @ (case subject of None \<Rightarrow> js ''your message''
        | Some s \<Rightarrow> if s = [] then js ''your message'' else s)
     @ html2_next_steps @ takeWhile (\<lambda>c. c \<noteq> 0x20) name @ html2_remainder"
  by (simp add: buildAutoReplyHtml_def buildAutoReplyHtml2_def Let_def orElse_def splitString_first)

theorem C10_template_interpolation_witness:
  "buildAutoReplyHtml (js ''<b>Jo</b>'') None =
     html_header @ js ''<b>Jo</b>'' @ html_greeting @ js ''<b>Jo</b>'' @ html_thanks
     @ js ''your message'' @ html_remainder
   \<and> buildAutoReplyHtml2 (js ''Jo Doe'') (Some (js ''Hello'')) =
     html2_header @ js ''Jo Doe'' @ html2_greeting @ js ''Jo Doe'' @ html2_thanks
     @ js ''Hello'' @ html2_next_steps @ js ''Jo'' @ html2_remainder"
proof -
  have "takeWhile (\<lambda>c. c \<noteq> 0x20) (js ''Jo Doe'') = js ''Jo''" "js ''Hello'' \<noteq> []"
    by (simp_all add: js_def)
  then show ?thesis
    using C10_template_interpolation [of "js ''<b>Jo</b>''" None]
      C10_template_interpolation [of "js ''Jo Doe''" "Some (js ''Hello'')"]
    by simp
qed

text \<open>
  Claim C10 as stated fails at the third point of the second listing, where a name
  with a space is not embedded whole: for \<open>Jo Doe\<close> the document has \<open>Jo\<close> there.
\<close>

theorem C10_counterexample:
  "buildAutoReplyHtml2 (js ''Jo Doe'') None \<noteq>
     html2_header @ js ''Jo Doe'' @ html2_greeting @ js ''Jo Doe'' @ html2_thanks
     @ js ''your message'' @ html2_next_steps @ js ''Jo Doe'' @ html2_remainder
   \<and> buildAutoReplyHtml2 (js ''Jo Doe'') None =
     html2_header @ js ''Jo Doe'' @ html2_greeting @ js ''Jo Doe'' @ html2_thanks
     @ js ''your message'' @ html2_next_steps @ js ''Jo'' @ html2_remainder"
proof -
  have t: "takeWhile (\<lambda>c. c \<noteq> 0x20) (js ''Jo Doe'') = js ''Jo''"
    by (simp add: js_def)
  have n: "js ''Jo'' \<noteq> js ''Jo Doe''"
    by (simp add: js_def)
  show ?thesis
    using n by (simp add: buildAutoReplyHtml2_def Let_def orElse_def splitString_first t)
qed

end
